theory Spec2Isabelle
  imports Complex_Main "HOL-Library.Sublist"
begin

section \<open>Python values\<close>

text \<open>
  The middleware handles decoded JSON documents and Python's \<open>None\<close>. A value is one of
  the shapes \<open>json.loads\<close> produces; \<open>JNull\<close> is Python's \<open>None\<close>. A dictionary is an
  association list read with \<open>map_of\<close> (one entry per key).
\<close>

datatype json =
    JNull
  | JBool bool
  | JInt int
  | JFloat real
  | JStr string
  | JList "json list"
  | JDict "(string \<times> json) list"

text \<open>Python truthiness, as used by \<open>if x\<close>, \<open>not x\<close>, \<open>x or y\<close> and \<open>all\<close>.\<close>

fun truthy :: "json \<Rightarrow> bool" where
  "truthy JNull = False"
| "truthy (JBool b) = b"
| "truthy (JInt i) = (i \<noteq> 0)"
| "truthy (JFloat x) = (x \<noteq> 0)"
| "truthy (JStr s) = (s \<noteq> [])"
| "truthy (JList xs) = (xs \<noteq> [])"
| "truthy (JDict kvs) = (kvs \<noteq> [])"

fun py_type_name :: "json \<Rightarrow> string" where
  "py_type_name JNull = ''NoneType''"
| "py_type_name (JBool b) = ''bool''"
| "py_type_name (JInt i) = ''int''"
| "py_type_name (JFloat x) = ''float''"
| "py_type_name (JStr s) = ''str''"
| "py_type_name (JList xs) = ''list''"
| "py_type_name (JDict kvs) = ''dict''"

text \<open>
  Exceptions. \<open>HTTPException\<close> carries a status code and a detail document.
  \<open>AgentPassportError\<close> is the SDK's typed error with the attributes the middleware reads
  (\<open>status_code\<close>, \<open>code\<close>, \<open>message\<close>, \<open>agent_id\<close>) and the text \<open>str(e)\<close>.
  Every other exception is \<open>PyException cls txt\<close>: its class name and the text \<open>str(e)\<close>.
\<close>

record ape =
  ape_status_code :: "int option"
  ape_code :: json
  ape_message :: json
  ape_agent_id :: json
  ape_text :: string

datatype exn =
    HTTPException int json
  | AgentPassportError ape
  | PyException string string

definition squote :: "string \<Rightarrow> string" where
  "squote s = [CHR 0x27] @ s @ [CHR 0x27]"

definition attribute_error :: "json \<Rightarrow> string \<Rightarrow> exn" where
  "attribute_error v attr =
     PyException ''AttributeError''
       (squote (py_type_name v) @ '' object has no attribute '' @ squote attr)"

text \<open>\<open>d.get(k, default)\<close> on a dictionary, and on any value: only a dictionary has the method.\<close>

definition dget :: "(string \<times> json) list \<Rightarrow> string \<Rightarrow> json \<Rightarrow> json" where
  "dget kvs k dflt = (case map_of kvs k of Some v \<Rightarrow> v | None \<Rightarrow> dflt)"

definition py_get :: "json \<Rightarrow> string \<Rightarrow> json \<Rightarrow> exn + json" where
  "py_get d k dflt =
     (case d of
        JDict kvs \<Rightarrow> Inr (dget kvs k dflt)
      | _ \<Rightarrow> Inl (attribute_error d ''get''))"

text \<open>\<open>a or b\<close> on optional strings: \<open>None\<close> and the empty string are falsy.\<close>

definition str_truthy :: "string option \<Rightarrow> bool" where
  "str_truthy a = (case a of None \<Rightarrow> False | Some s \<Rightarrow> s \<noteq> [])"

definition str_or :: "string option \<Rightarrow> string option \<Rightarrow> string option" where
  "str_or a b = (if str_truthy a then a else b)"

section \<open>policy_enforcement_v2: data\<close>

record PolicyPack =
  pp_id :: json
  pp_name :: json
  pp_requires_capabilities :: json
  pp_min_assurance :: json
  pp_limits_required :: json
  pp_enforcement :: json

record PassportData =
  pd_agent_id :: json
  pd_name :: json
  pd_status :: json
  pd_capabilities :: json
  pd_limits :: json
  pd_regions :: json
  pd_assurance_level :: json
  pd_assurance_method :: json
  pd_assurance_verified_at :: json

record PolicyResult =
  pr_passport :: PassportData
  pr_policy :: PolicyPack
  pr_checks :: "(string \<times> json) list"

record PolicyEnforcementConfig =
  api_base_url :: string
  cache_ttl :: int
  fail_closed :: bool
  enabled :: bool
  strict_mode :: bool
  log_violations :: bool

definition default_config :: PolicyEnforcementConfig where
  "default_config =
     \<lparr> api_base_url = ''https://api.aport.io'', cache_ttl = 60, fail_closed = True,
       enabled = True, strict_mode = True, log_violations = True \<rparr>"

text \<open>\<open>PolicyPack(data)\<close> and \<open>PassportData(data)\<close>: every field is \<open>data.get(...)\<close>.\<close>

definition mk_PolicyPack :: "json \<Rightarrow> exn + PolicyPack" where
  "mk_PolicyPack data =
     (case data of
        JDict kvs \<Rightarrow>
          Inr \<lparr> pp_id = dget kvs ''id'' JNull,
                pp_name = dget kvs ''name'' JNull,
                pp_requires_capabilities =
                  dget kvs ''requires_capabilities'' (JList []),
                pp_min_assurance =
                  dget kvs ''min_assurance'' JNull,
                pp_limits_required =
                  dget kvs ''limits_required'' (JList []),
                pp_enforcement =
                  dget kvs ''enforcement'' (JDict []) \<rparr>
      | _ \<Rightarrow> Inl (attribute_error data ''get''))"

text \<open>
  \<open>convert_policy_response(response, policy)\<close>. \<open>response.get("passport", {})\<close> and
  \<open>passport_data.get("evaluation", {})\<close> raise when the value found is not a dictionary.
  The time stamp \<open>datetime.now().isoformat()\<close> is the argument \<open>now_iso\<close>.
\<close>

definition convert_policy_response :: "string \<Rightarrow> json \<Rightarrow> PolicyPack \<Rightarrow> exn + PolicyResult" where
  "convert_policy_response now_iso response policy =
     (case py_get response ''passport'' (JDict []) of
        Inl e \<Rightarrow> Inl e
      | Inr passport_data \<Rightarrow>
         (case py_get passport_data ''evaluation'' (JDict []) of
            Inl e \<Rightarrow> Inl e
          | Inr evaluation \<Rightarrow>
             (case evaluation of
                JDict ev \<Rightarrow>
                 (case passport_data of
                    JDict pd \<Rightarrow>
                      Inr \<lparr> pr_passport =
                              \<lparr> pd_agent_id = dget pd ''agent_id'' JNull,
                                pd_name = dget pd ''agent_id'' JNull,
                                pd_status = dget pd ''status'' JNull,
                                pd_capabilities =
                                  dget pd ''capabilities'' (JList []),
                                pd_limits = dget pd ''limits'' (JDict []),
                                pd_regions = dget pd ''regions'' (JList []),
                                pd_assurance_level =
                                  dget pd ''assurance_level'' JNull,
                                pd_assurance_method = JStr ''api_verification'',
                                pd_assurance_verified_at = JStr now_iso \<rparr>,
                            pr_policy = policy,
                            pr_checks =
                              [(''capability'', dget ev ''capability_ok'' (JBool False)),
                               (''assurance'', dget ev ''assurance_ok'' (JBool False)),
                               (''limits'', dget ev ''limits_ok'' (JBool False)),
                               (''regions'', dget ev ''regions_ok'' (JBool False))] \<rparr>
                  | _ \<Rightarrow> Inl (attribute_error passport_data ''get''))
              | _ \<Rightarrow> Inl (attribute_error evaluation ''get''))))"

text \<open>
  The SDK's \<open>AgentPassport\<close> object, with the attributes the middleware variants read.
  \<open>ap_assurance_level = None\<close> is an object without that attribute.
\<close>

record AgentPassport =
  ap_agent_id :: json
  ap_permissions :: json
  ap_regions :: json
  ap_capabilities :: "json list"
  ap_limits :: json
  ap_assurance_level :: "json option"

text \<open>
  The result object that middleware_v3 attaches:
  \<open>MiddlewarePolicyResult(allowed=True, evaluation=..., error=None)\<close>.
\<close>

record MiddlewarePolicyResult =
  mpr_allowed :: bool
  mpr_evaluation :: json
  mpr_error :: json

text \<open>
  The attributes the middleware variants read or set on \<open>request.state\<close>; \<open>None\<close> is an
  attribute that is absent.
\<close>

record req_state =
  st_policy_id :: "string option"
  st_policy_context :: "json option"
  st_policy_result :: "PolicyResult option"
  st_policy_result_v3 :: "MiddlewarePolicyResult option"
  st_agent :: "AgentPassport option"

definition empty_state :: req_state where
  "empty_state =
     \<lparr> st_policy_id = None, st_policy_context = None, st_policy_result = None,
       st_policy_result_v3 = None, st_agent = None \<rparr>"

text \<open>
  A request: method, URL path, headers (keyed by lower-case name, as Starlette reads
  them), the outcome of decoding the body as JSON (\<open>None\<close> when decoding raises), the
  \<open>_json\<close> attribute when the body was decoded before, and \<open>request.state\<close>.
\<close>

record request =
  rq_method :: string
  rq_path :: string
  rq_headers :: "string \<rightharpoonup> string"
  rq_json :: "json option"
  rq_cached_json :: "json option"
  rq_state :: req_state

datatype response = JSONResponse int json | HandlerResponse int string

definition get_policy_result :: "request \<Rightarrow> PolicyResult option" where
  "get_policy_result req = st_policy_result (rq_state req)"

text \<open>
  \<open>has_policy_access\<close>: \<open>result and all(result.checks.values()) if result else False\<close>.
  A \<open>PolicyResult\<close> object is always truthy.
\<close>

definition has_policy_access :: "request \<Rightarrow> bool" where
  "has_policy_access req =
     (case get_policy_result req of
        None \<Rightarrow> False
      | Some r \<Rightarrow> list_all truthy (map snd (pr_checks r)))"

section \<open>policy_enforcement_v2: verification and its cache\<close>

text \<open>
  The module's global \<open>_verification_cache\<close> and what the module does to the outside: HTTP
  calls, cache writes, log lines and the call of the next handler, recorded in order.
  Log lines carry the constant part of the message.
\<close>

record cache_entry =
  ce_result :: json
  ce_expires :: real

datatype event =
    HttpPost string json
  | HttpGet string
  | CacheWrite string cache_entry
  | LogError string
  | LogWarning string
  | Print string
  | SdkCall string
  | CallNext

record mstate =
  verification_cache :: "string \<rightharpoonup> cache_entry"
  trace :: "event list"

definition emit :: "event \<Rightarrow> mstate \<Rightarrow> mstate" where
  "emit e s = s\<lparr>trace := trace s @ [e]\<rparr>"

text \<open>
  What the outside answers during one call: the directory's replies to POST and GET (a
  failed connection or time-out, or a status with the decoded body, \<open>None\<close> when
  \<open>response.json()\<close> raises), the two readings of \<open>datetime.now().timestamp()\<close> (at the
  cache look-up and at the cache write), the rounding of a real number to the nearest
  float that the machine's float arithmetic applies, \<open>datetime.now().isoformat()\<close>, and
  the outcome of \<open>call_next(request)\<close>.
\<close>

datatype http_outcome = NetFail string | HttpResponse int "json option"

record world =
  http_post :: "string \<Rightarrow> json \<Rightarrow> http_outcome"
  http_get :: "string \<Rightarrow> http_outcome"
  now_check :: real
  now_store :: real
  float_round :: "real \<Rightarrow> real"
  now_iso :: string
  call_next :: "exn + response"

text \<open>
  Python's \<open>float + int\<close>, as \<open>datetime.now().timestamp() + config.cache_ttl\<close> uses it.
  The int is converted to a float: rounded to the nearest float, and \<open>OverflowError\<close> when
  it lies beyond the float range, that is from \<open>2 ^ 1024 - 2 ^ 970\<close> on. Then the sum is
  rounded to the nearest float. A time stamp is far below the float range, so the sum of a
  time stamp and a float is finite.
\<close>

definition int_fits_float :: "int \<Rightarrow> bool" where
  "int_fits_float n = (\<bar>n\<bar> < 2 ^ 1024 - 2 ^ 970)"

definition py_float_add :: "(real \<Rightarrow> real) \<Rightarrow> real \<Rightarrow> int \<Rightarrow> real option" where
  "py_float_add rnd x n =
     (if int_fits_float n then Some (rnd (x + rnd (real_of_int n))) else None)"

definition cache_key :: "string \<Rightarrow> string \<Rightarrow> string" where
  "cache_key policy_id agent_id = ''policy:'' @ policy_id @ '':'' @ agent_id"

definition verify_url :: "PolicyEnforcementConfig \<Rightarrow> string \<Rightarrow> string" where
  "verify_url config policy_id = api_base_url config @ ''/api/verify/policy/'' @ policy_id"

definition verify_body :: "string \<Rightarrow> json \<Rightarrow> json" where
  "verify_body agent_id context =
     JDict [(''agent_id'', JStr agent_id),
            (''context'', if truthy context then context else JDict [])]"

text \<open>
  The \<open>try\<close> block of \<open>verify_policy_compliance\<close>: the POST, and the cache write when the
  result's \<open>allow\<close> is truthy. Every exception inside is caught, logged, and gives \<open>None\<close>:
  a failed connection, a body that is no JSON, a result without \<open>get\<close>, and the
  \<open>OverflowError\<close> of the expiry's addition, raised before anything is stored.
\<close>

definition fetch_verification ::
  "world \<Rightarrow> string \<Rightarrow> string \<Rightarrow> json \<Rightarrow> PolicyEnforcementConfig \<Rightarrow> mstate \<Rightarrow> json \<times> mstate" where
  "fetch_verification w agent_id policy_id context config s =
     (let url = verify_url config policy_id;
          body = verify_body agent_id context;
          s1 = emit (HttpPost url body) s
      in case http_post w url body of
           NetFail msg \<Rightarrow> (JNull, emit (LogError ''Error verifying policy compliance'') s1)
         | HttpResponse status js \<Rightarrow>
             if status = 200 then
               (case js of
                  None \<Rightarrow> (JNull, emit (LogError ''Error verifying policy compliance'') s1)
                | Some result \<Rightarrow>
                   (case py_get result ''allow'' JNull of
                      Inl e \<Rightarrow> (JNull, emit (LogError ''Error verifying policy compliance'') s1)
                    | Inr allow \<Rightarrow>
                        if truthy allow then
                          (case py_float_add (float_round w) (now_store w) (cache_ttl config) of
                             None \<Rightarrow>
                               (JNull, emit (LogError ''Error verifying policy compliance'') s1)
                           | Some expires \<Rightarrow>
                               (let entry = \<lparr> ce_result = result, ce_expires = expires \<rparr>
                                in (result,
                                    emit (CacheWrite (cache_key policy_id agent_id) entry)
                                      (s1\<lparr>verification_cache :=
                                            (verification_cache s1)(cache_key policy_id agent_id \<mapsto> entry)\<rparr>))))
                        else (result, s1)))
             else (JNull, emit (LogError ''Policy verification failed'') s1))"

definition verify_policy_compliance ::
  "world \<Rightarrow> string \<Rightarrow> string \<Rightarrow> json \<Rightarrow> PolicyEnforcementConfig \<Rightarrow> mstate \<Rightarrow> json \<times> mstate" where
  "verify_policy_compliance w agent_id policy_id context config s =
     (case verification_cache s (cache_key policy_id agent_id) of
        Some cached \<Rightarrow>
          if ce_expires cached > now_check w then (ce_result cached, s)
          else fetch_verification w agent_id policy_id context config s
      | None \<Rightarrow> fetch_verification w agent_id policy_id context config s)"

definition fetch_policy_pack ::
  "world \<Rightarrow> string \<Rightarrow> PolicyEnforcementConfig \<Rightarrow> mstate \<Rightarrow> PolicyPack option \<times> mstate" where
  "fetch_policy_pack w policy_id config s =
     (let url = api_base_url config @ ''/api/policies/'' @ policy_id;
          s1 = emit (HttpGet url) s
      in case http_get w url of
           NetFail msg \<Rightarrow> (None, emit (LogError ''Error fetching policy pack'') s1)
         | HttpResponse status js \<Rightarrow>
             if status = 200 then
               (case js of
                  None \<Rightarrow> (None, emit (LogError ''Error fetching policy pack'') s1)
                | Some data \<Rightarrow>
                   (case mk_PolicyPack data of
                      Inl e \<Rightarrow> (None, emit (LogError ''Error fetching policy pack'') s1)
                    | Inr p \<Rightarrow> (Some p, s1)))
             else (None, s1))"

section \<open>policy_enforcement_v2: the middleware\<close>

definition policy_id_required :: exn where
  "policy_id_required =
     HTTPException 400
       (JDict [(''error'', JStr ''policy_id_required''),
               (''message'', JStr ''Policy ID must be specified'')])"

definition policy_verification_failed :: exn where
  "policy_verification_failed =
     HTTPException 500
       (JDict [(''error'', JStr ''policy_verification_failed''),
               (''message'', JStr ''Failed to verify policy compliance'')])"

definition policy_violation :: "(string \<times> json) list \<Rightarrow> string \<Rightarrow> string \<Rightarrow> exn" where
  "policy_violation policy_response agent_id policy_id =
     HTTPException 403
       (JDict [(''error'', JStr ''policy_violation''),
               (''message'', dget policy_response ''reason'' (JStr ''Policy violation'')),
               (''violations'', dget policy_response ''violations'' (JList [])),
               (''agent_id'', JStr agent_id),
               (''policy_id'', JStr policy_id)])"

text \<open>
  The part of the middleware after \<open>verify_policy_compliance\<close> has returned
  \<open>policy_response\<close>: the fail-closed / fail-open branches, then the attachment of the
  converted result.
\<close>

definition after_verification ::
  "world \<Rightarrow> string \<Rightarrow> string \<Rightarrow> PolicyEnforcementConfig \<Rightarrow> req_state \<Rightarrow> json \<Rightarrow> mstate
     \<Rightarrow> (exn + response) \<times> req_state \<times> mstate" where
  "after_verification w agent_id policy_id config st policy_response s1 =
     (if \<not> truthy policy_response then
        (if fail_closed config then (Inl policy_verification_failed, st, s1)
         else (call_next w, st,
               emit CallNext
                 (emit (LogWarning ''Policy verification failed, allowing request to proceed'') s1)))
      else
        (case policy_response of
           JDict kvs \<Rightarrow>
             if \<not> truthy (dget kvs ''allow'' JNull) then
               (let s2 = (if log_violations config
                          then emit (LogWarning ''Policy violation for agent'') s1 else s1)
                in if fail_closed config
                   then (Inl (policy_violation kvs agent_id policy_id), st, s2)
                   else (call_next w, st,
                         emit CallNext
                           (emit (LogWarning ''Policy violation detected, allowing request to proceed'') s2)))
             else
               (case fetch_policy_pack w policy_id config s1 of
                  (None, s2) \<Rightarrow> (call_next w, st, emit CallNext s2)
                | (Some policy, s2) \<Rightarrow>
                   (case convert_policy_response (now_iso w) policy_response policy of
                      Inl e \<Rightarrow> (Inl e, st, s2)
                    | Inr r \<Rightarrow>
                        (call_next w, st\<lparr>st_policy_result := Some r\<rparr>, emit CallNext s2)))
         | _ \<Rightarrow> (Inl (attribute_error policy_response ''get''), st, s1)))"

text \<open>
  The context sent for verification: \<open>request.state.policy_context\<close> unless it is absent
  or \<open>None\<close>, then the decoded request body, \<open>{}\<close> when decoding raises.
\<close>

definition request_context :: "request \<Rightarrow> json" where
  "request_context req =
     (let body = (case rq_json req of Some j \<Rightarrow> j | None \<Rightarrow> JDict [])
      in case st_policy_context (rq_state req) of
           None \<Rightarrow> body
         | Some c \<Rightarrow> if c = JNull then body else c)"

text \<open>
  \<open>create_agent_passport_middleware(agent_id, config)\<close> applied to a request. The result is
  the response returned or the exception raised, \<open>request.state\<close> as the middleware leaves
  it, and the module state.
\<close>

definition middleware ::
  "world \<Rightarrow> string \<Rightarrow> PolicyEnforcementConfig \<Rightarrow> request \<Rightarrow> mstate
     \<Rightarrow> (exn + response) \<times> req_state \<times> mstate" where
  "middleware w agent_id config req s =
     (if \<not> enabled config then (call_next w, rq_state req, emit CallNext s)
      else
        (case str_or (st_policy_id (rq_state req)) (rq_headers req ''x-policy-id'') of
           None \<Rightarrow> (Inl policy_id_required, rq_state req, s)
         | Some policy_id \<Rightarrow>
             if policy_id = [] then (Inl policy_id_required, rq_state req, s)
             else
               (case verify_policy_compliance w agent_id policy_id (request_context req) config s of
                  (policy_response, s1) \<Rightarrow>
                    after_verification w agent_id policy_id config (rq_state req)
                      policy_response s1)))"

section \<open>The SDK-based middlewares: collaborators\<close>

text \<open>
  \<open>AgentPassportMiddlewareOptions\<close> with the fields the middlewares read.
\<close>

record options =
  opt_fail_closed :: bool
  opt_skip_paths :: "string list"
  opt_skip_methods :: "string list"
  opt_required_permissions :: "string list"
  opt_allowed_regions :: "string list"
  opt_policy_id :: "string option"

text \<open>
  The functions imported from the \<open>agent_passport\<close> SDK and from \<open>.validation\<close>, and
  Python's \<open>str\<close> on values that are not strings, are arguments of the model: each
  returns a value or raises. The enforcement configurations fixed in \<open>__init__\<close> are part
  of the functions. A verdict is the dictionary a \<open>check_*\<close> function returns.
\<close>

type_synonym verdict = "(string \<times> json) list"

record sdk =
  sdk_client_verify_agent_passport :: "string \<Rightarrow> exn + AgentPassport"
  sdk_has_permission :: "AgentPassport \<Rightarrow> string \<Rightarrow> exn + bool"
  sdk_is_allowed_in_region :: "AgentPassport \<Rightarrow> string \<Rightarrow> exn + bool"
  sdk_check_capability_requirement :: "string \<Rightarrow> json list \<Rightarrow> exn + verdict"
  sdk_check_assurance_requirement :: "json \<Rightarrow> string \<Rightarrow> exn + verdict"
  sdk_check_mcp_requirement :: "(string \<rightharpoonup> string) \<Rightarrow> AgentPassport \<Rightarrow> exn + verdict"
  sdk_check_region_requirements :: "json \<Rightarrow> string list \<Rightarrow> exn + verdict"
  sdk_check_limits_for_operation :: "string \<Rightarrow> json \<Rightarrow> json \<Rightarrow> exn + verdict"
  sdk_extract_agent_id_from_request :: "request \<Rightarrow> exn + string option"
  sdk_verify_agent_passport :: "string \<Rightarrow> exn + AgentPassport"
  sdk_has_policy_access :: "string \<Rightarrow> string \<Rightarrow> json \<Rightarrow> exn + bool"
  sdk_get_policy :: "string \<Rightarrow> exn + json"
  sdk_verify_policy :: "string \<Rightarrow> string \<Rightarrow> json \<Rightarrow> exn + json"
  sdk_get_policy_result :: "json \<Rightarrow> exn + json option"
  sdk_validate_policy_call :: "string option \<Rightarrow> string \<Rightarrow> exn + (string option \<times> string)"
  sdk_validate_agent_id_present :: "string option \<Rightarrow> request \<Rightarrow> exn + string"
  sdk_str :: "json \<Rightarrow> string"

text \<open>
  One run of a \<open>try\<close> body: the response returned or the exception raised,
  \<open>request.state\<close> as it is left, and the events in order. \<open>SdkCall f\<close> is a call of an
  SDK function that may contact the directory.
\<close>

type_synonym run = "(exn + response) \<times> req_state \<times> event list"

section \<open>middleware_simple\<close>

definition should_skip_request :: "options \<Rightarrow> request \<Rightarrow> bool" where
  "should_skip_request opts req =
     (if rq_method req \<in> set (opt_skip_methods opts) then True
      else if list_ex (\<lambda>path. prefix path (rq_path req)) (opt_skip_paths opts) then True
      else False)"

text \<open>
  The agent identifier read from the headers: \<open>x-agent-passport-id\<close>, else \<open>x-agent-id\<close>,
  else the token after \<open>Bearer \<close> in \<open>authorization\<close>.
\<close>

definition header_agent_id :: "request \<Rightarrow> string option" where
  "header_agent_id req =
     (let auth_header = rq_headers req ''authorization''
      in str_or (str_or (rq_headers req ''x-agent-passport-id'') (rq_headers req ''x-agent-id''))
           (case auth_header of
              None \<Rightarrow> None
            | Some a \<Rightarrow> if a \<noteq> [] \<and> prefix ''Bearer '' a then Some (drop 7 a) else None))"

definition missing_agent_id_400 :: response where
  "missing_agent_id_400 =
     JSONResponse 400
       (JDict [(''error'', JStr ''missing_agent_id''),
               (''message'',
                JStr ''X-Agent-Passport-Id header (preferred) or Authorization/X-Agent-ID header is required'')])"

definition internal_error_500 :: response where
  "internal_error_500 =
     JSONResponse 500
       (JDict [(''error'', JStr ''internal_error''),
               (''message'', JStr ''Internal server error'')])"

definition run_simple :: "sdk \<Rightarrow> (exn + response) \<Rightarrow> options \<Rightarrow> request \<Rightarrow> run" where
  "run_simple sdk cn opts req =
     (if should_skip_request opts req then (cn, rq_state req, [CallNext])
      else
        (case header_agent_id req of
           None \<Rightarrow>
             if opt_fail_closed opts then (Inr missing_agent_id_400, rq_state req, [])
             else (cn, rq_state req, [CallNext])
         | Some agent_id \<Rightarrow>
             if agent_id = [] then
               (if opt_fail_closed opts then (Inr missing_agent_id_400, rq_state req, [])
                else (cn, rq_state req, [CallNext]))
             else
               (case sdk_client_verify_agent_passport sdk agent_id of
                  Inl e \<Rightarrow> (Inl e, rq_state req, [SdkCall ''verify_agent_passport''])
                | Inr agent \<Rightarrow>
                    (cn, (rq_state req)\<lparr>st_agent := Some agent\<rparr>,
                     [SdkCall ''verify_agent_passport'', CallNext]))))"

text \<open>
  The two \<open>except\<close> clauses shared by middleware_simple and middleware_v2:
  \<open>AgentPassportError\<close> gives its own status (\<open>e.status_code or 500\<close>) and fields; any
  other exception is printed and gives the fixed 500 document.
\<close>

definition handle_errors :: "run \<Rightarrow> response \<times> req_state \<times> event list" where
  "handle_errors r =
     (case r of
        (Inr resp, st, tr) \<Rightarrow> (resp, st, tr)
      | (Inl (AgentPassportError e), st, tr) \<Rightarrow>
          (JSONResponse
             (case ape_status_code e of None \<Rightarrow> 500 | Some c \<Rightarrow> if c = 0 then 500 else c)
             (JDict [(''error'', ape_code e), (''message'', ape_message e),
                     (''agent_id'', ape_agent_id e)]),
           st, tr)
      | (Inl _, st, tr) \<Rightarrow>
          (internal_error_500, st, tr @ [Print ''Agent Passport middleware error'']))"

definition dispatch_simple ::
  "sdk \<Rightarrow> (exn + response) \<Rightarrow> options \<Rightarrow> request \<Rightarrow> response \<times> req_state \<times> event list" where
  "dispatch_simple sdk cn opts req = handle_errors (run_simple sdk cn opts req)"

section \<open>middleware_v2\<close>

text \<open>
  \<open>_extract_capability_ids\<close>: the loop appends one element per capability; a string is
  kept, a dictionary gives \<open>cap.get('id', cap)\<close>, anything else gives \<open>str(cap)\<close>.
\<close>

definition extract_capability_id :: "(json \<Rightarrow> string) \<Rightarrow> json \<Rightarrow> json" where
  "extract_capability_id str cap =
     (case cap of
        JStr s \<Rightarrow> JStr s
      | JDict kvs \<Rightarrow> dget kvs ''id'' cap
      | _ \<Rightarrow> JStr (str cap))"

fun extract_loop :: "(json \<Rightarrow> string) \<Rightarrow> json list \<Rightarrow> json list \<Rightarrow> json list" where
  "extract_loop str [] extracted = extracted"
| "extract_loop str (cap # caps) extracted =
     extract_loop str caps (extracted @ [extract_capability_id str cap])"

definition extract_capability_ids :: "(json \<Rightarrow> string) \<Rightarrow> json list \<Rightarrow> json list" where
  "extract_capability_ids str capabilities = extract_loop str capabilities []"


text \<open>\<open>needle in haystack\<close> on strings.\<close>

fun contains :: "string \<Rightarrow> string \<Rightarrow> bool" where
  "contains needle [] = (needle = [])"
| "contains needle (c # cs) = (prefix needle (c # cs) \<or> contains needle cs)"

definition get_operation_type :: "string \<Rightarrow> string" where
  "get_operation_type path =
     (if contains ''/deploy'' path \<or> contains ''/infra'' path then ''deploy''
      else if contains ''/export'' path \<or> contains ''/data'' path then ''export''
      else if contains ''/refund'' path \<or> contains ''/payment'' path then ''refund''
      else ''general'')"

definition extract_operation_data :: "request \<Rightarrow> json" where
  "extract_operation_data req = JDict []"

text \<open>\<open>all(has_permission(agent, p) for p in ...)\<close> and \<open>any(is_allowed_in_region(agent, r) for r in ...)\<close>.\<close>

fun all_permissions :: "sdk \<Rightarrow> AgentPassport \<Rightarrow> string list \<Rightarrow> exn + bool" where
  "all_permissions sdk agent [] = Inr True"
| "all_permissions sdk agent (p # ps) =
     (case sdk_has_permission sdk agent p of
        Inl e \<Rightarrow> Inl e
      | Inr b \<Rightarrow> if b then all_permissions sdk agent ps else Inr False)"

fun any_region :: "sdk \<Rightarrow> AgentPassport \<Rightarrow> string list \<Rightarrow> exn + bool" where
  "any_region sdk agent [] = Inr False"
| "any_region sdk agent (r # rs) =
     (case sdk_is_allowed_in_region sdk agent r of
        Inl e \<Rightarrow> Inl e
      | Inr b \<Rightarrow> if b then Inr True else any_region sdk agent rs)"

text \<open>
  Each check of \<open>dispatch\<close> is a stage: it raises, returns a denial, or lets the request
  pass to the next stage (\<open>Inr None\<close>). \<open>check["allowed"]\<close> raises \<open>KeyError\<close> when the
  verdict has no such key.
\<close>

type_synonym stage = "exn + response option"

definition and_then :: "stage \<Rightarrow> stage \<Rightarrow> stage" where
  "and_then a b = (case a of Inl e \<Rightarrow> Inl e | Inr (Some r) \<Rightarrow> Inr (Some r) | Inr None \<Rightarrow> b)"

definition allowed_item :: "verdict \<Rightarrow> exn + json" where
  "allowed_item v =
     (case map_of v ''allowed'' of
        None \<Rightarrow> Inl (PyException ''KeyError'' (squote ''allowed''))
      | Some a \<Rightarrow> Inr a)"

definition deny_unless_allowed :: "(exn + verdict) \<Rightarrow> (verdict \<Rightarrow> response) \<Rightarrow> stage" where
  "deny_unless_allowed check denial =
     (case check of
        Inl e \<Rightarrow> Inl e
      | Inr v \<Rightarrow>
         (case allowed_item v of
            Inl e \<Rightarrow> Inl e
          | Inr a \<Rightarrow> if \<not> truthy a then Inr (Some (denial v)) else Inr None))"

definition str_list :: "string list \<Rightarrow> json" where
  "str_list xs = JList (map JStr xs)"

definition permissions_stage :: "sdk \<Rightarrow> options \<Rightarrow> AgentPassport \<Rightarrow> stage" where
  "permissions_stage sdk opts agent =
     (if opt_required_permissions opts \<noteq> [] then
        (case all_permissions sdk agent (opt_required_permissions opts) of
           Inl e \<Rightarrow> Inl e
         | Inr has_all_permissions \<Rightarrow>
             if \<not> has_all_permissions then
               Inr (Some (JSONResponse 403
                 (JDict [(''error'', JStr ''insufficient_permissions''),
                         (''message'', JStr ''Agent does not have required permissions''),
                         (''required'', str_list (opt_required_permissions opts)),
                         (''current'', ap_permissions agent)])))
             else Inr None)
      else Inr None)"

definition allowed_regions_stage :: "sdk \<Rightarrow> options \<Rightarrow> AgentPassport \<Rightarrow> stage" where
  "allowed_regions_stage sdk opts agent =
     (if opt_allowed_regions opts \<noteq> [] then
        (case any_region sdk agent (opt_allowed_regions opts) of
           Inl e \<Rightarrow> Inl e
         | Inr is_allowed_in_any_region \<Rightarrow>
             if \<not> is_allowed_in_any_region then
               Inr (Some (JSONResponse 403
                 (JDict [(''error'', JStr ''region_not_allowed''),
                         (''message'', JStr ''Agent is not allowed in this region''),
                         (''allowed'', str_list (opt_allowed_regions opts)),
                         (''current'', ap_regions agent)])))
             else Inr None)
      else Inr None)"

definition capability_denial :: "json list \<Rightarrow> verdict \<Rightarrow> response" where
  "capability_denial agent_capabilities v =
     JSONResponse 403
       (JDict [(''error'', JStr ''insufficient_capabilities''),
               (''message'', JStr ''Agent does not have required capabilities for this route''),
               (''required'', dget v ''required'' (JList [])),
               (''missing'', dget v ''missing'' (JList [])),
               (''current'', JList agent_capabilities)])"

definition capability_stage :: "sdk \<Rightarrow> request \<Rightarrow> AgentPassport \<Rightarrow> stage" where
  "capability_stage sdk req agent =
     (let agent_capabilities = extract_capability_ids (sdk_str sdk) (ap_capabilities agent)
      in deny_unless_allowed
           (sdk_check_capability_requirement sdk (rq_path req) agent_capabilities)
           (capability_denial agent_capabilities))"

definition py_str :: "sdk \<Rightarrow> json \<Rightarrow> string" where
  "py_str sdk v = (case v of JStr s \<Rightarrow> s | _ \<Rightarrow> sdk_str sdk v)"

definition assurance_denial :: "sdk \<Rightarrow> verdict \<Rightarrow> response" where
  "assurance_denial sdk v =
     JSONResponse 403
       (JDict [(''error'', JStr ''insufficient_assurance''),
               (''message'',
                JStr (''This operation requires ''
                      @ py_str sdk (dget v ''required_level_name'' (JStr ''higher''))
                      @ '' assurance level'')),
               (''current_level'', dget v ''current_level'' JNull),
               (''current_level_name'', dget v ''current_level_name'' JNull),
               (''required_level'', dget v ''required_level'' JNull),
               (''required_level_name'', dget v ''required_level_name'' JNull),
               (''upgrade_instructions'', dget v ''upgrade_instructions'' JNull),
               (''docs_url'', dget v ''docs_url'' JNull)])"

definition assurance_stage :: "sdk \<Rightarrow> request \<Rightarrow> AgentPassport \<Rightarrow> stage" where
  "assurance_stage sdk req agent =
     (let assurance_level = (case ap_assurance_level agent of None \<Rightarrow> JStr ''L0'' | Some l \<Rightarrow> l)
      in deny_unless_allowed
           (sdk_check_assurance_requirement sdk assurance_level (rq_path req))
           (assurance_denial sdk))"

definition mcp_stage :: "sdk \<Rightarrow> request \<Rightarrow> AgentPassport \<Rightarrow> stage" where
  "mcp_stage sdk req agent =
     deny_unless_allowed
       (sdk_check_mcp_requirement sdk (rq_headers req) agent)
       (\<lambda>v. JSONResponse 403
               (dget v ''error''
                  (JDict [(''error'', JStr ''mcp_denied''),
                          (''message'', JStr ''MCP access denied'')])))"

definition region_stage :: "sdk \<Rightarrow> options \<Rightarrow> AgentPassport \<Rightarrow> stage" where
  "region_stage sdk opts agent =
     deny_unless_allowed
       (sdk_check_region_requirements sdk (ap_regions agent) (opt_allowed_regions opts))
       (\<lambda>v. JSONResponse 403
               (JDict [(''error'', dget v ''reason'' (JStr ''region_not_allowed'')),
                       (''message'', dget v ''error'' (JStr ''Region validation failed'')),
                       (''allowed_regions'', str_list (opt_allowed_regions opts)),
                       (''agent_regions'', ap_regions agent)]))"

definition limits_stage :: "sdk \<Rightarrow> request \<Rightarrow> AgentPassport \<Rightarrow> stage" where
  "limits_stage sdk req agent =
     deny_unless_allowed
       (sdk_check_limits_for_operation sdk (get_operation_type (rq_path req))
          (if truthy (ap_limits agent) then ap_limits agent else JDict [])
          (extract_operation_data req))
       (\<lambda>v. JSONResponse 403
               (JDict [(''error'', JStr ''limits_exceeded''),
                       (''message'', JStr ''Request exceeds agent limits''),
                       (''violations'', dget v ''violations'' (JList [])),
                       (''limits'', ap_limits agent)]))"

text \<open>The checks of \<open>dispatch\<close> after the passport is verified, in the order of the source.\<close>

definition enforce_v2 :: "sdk \<Rightarrow> options \<Rightarrow> request \<Rightarrow> AgentPassport \<Rightarrow> stage" where
  "enforce_v2 sdk opts req agent =
     and_then (permissions_stage sdk opts agent)
    (and_then (allowed_regions_stage sdk opts agent)
    (and_then (capability_stage sdk req agent)
    (and_then (assurance_stage sdk req agent)
    (and_then (mcp_stage sdk req agent)
    (and_then (region_stage sdk opts agent)
              (limits_stage sdk req agent))))))"

definition run_v2 :: "sdk \<Rightarrow> (exn + response) \<Rightarrow> options \<Rightarrow> request \<Rightarrow> run" where
  "run_v2 sdk cn opts req =
     (if should_skip_request opts req then (cn, rq_state req, [CallNext])
      else
        (case header_agent_id req of
           None \<Rightarrow>
             if opt_fail_closed opts then (Inr missing_agent_id_400, rq_state req, [])
             else (cn, rq_state req, [CallNext])
         | Some agent_id \<Rightarrow>
             if agent_id = [] then
               (if opt_fail_closed opts then (Inr missing_agent_id_400, rq_state req, [])
                else (cn, rq_state req, [CallNext]))
             else
               (case sdk_client_verify_agent_passport sdk agent_id of
                  Inl e \<Rightarrow> (Inl e, rq_state req, [SdkCall ''verify_agent_passport''])
                | Inr agent \<Rightarrow>
                   (case enforce_v2 sdk opts req agent of
                      Inl e \<Rightarrow> (Inl e, rq_state req, [SdkCall ''verify_agent_passport''])
                    | Inr (Some denial) \<Rightarrow>
                        (Inr denial, rq_state req, [SdkCall ''verify_agent_passport''])
                    | Inr None \<Rightarrow>
                        (cn, (rq_state req)\<lparr>st_agent := Some agent\<rparr>,
                         [SdkCall ''verify_agent_passport'', CallNext])))))"

definition dispatch_v2 ::
  "sdk \<Rightarrow> (exn + response) \<Rightarrow> options \<Rightarrow> request \<Rightarrow> response \<times> req_state \<times> event list" where
  "dispatch_v2 sdk cn opts req = handle_errors (run_v2 sdk cn opts req)"

section \<open>middleware_v3\<close>

definition should_skip_verification :: "options \<Rightarrow> request \<Rightarrow> bool" where
  "should_skip_verification opts req =
     (if rq_path req \<in> set (opt_skip_paths opts) then True
      else if rq_method req \<in> set (opt_skip_methods opts) then True
      else False)"

text \<open>
  The request body used for policy evaluation: \<open>request._json\<close> when present and truthy,
  else the decoded body, \<open>{}\<close> when decoding raises.
\<close>

definition request_body :: "request \<Rightarrow> json" where
  "request_body req =
     (let decoded = (case rq_json req of Some j \<Rightarrow> j | None \<Rightarrow> JDict [])
      in case rq_cached_json req of
           None \<Rightarrow> decoded
         | Some j \<Rightarrow> if truthy j then j else decoded)"

definition policy_access_denied :: "string \<Rightarrow> string \<Rightarrow> exn" where
  "policy_access_denied agent_id policy_id =
     HTTPException 403
       (JDict [(''error'', JStr ''policy_access_denied''),
               (''message'', JStr (''Agent does not have access to policy '' @ policy_id)),
               (''agent_id'', JStr agent_id),
               (''policy_id'', JStr policy_id)])"

definition policy_not_found :: "string \<Rightarrow> string \<Rightarrow> exn" where
  "policy_not_found agent_id policy_id =
     HTTPException 404
       (JDict [(''error'', JStr ''policy_not_found''),
               (''message'', JStr (''Policy '' @ policy_id @ '' not found'')),
               (''agent_id'', JStr agent_id),
               (''policy_id'', JStr policy_id)])"

definition policy_violation_v3 :: "(string \<times> json) list \<Rightarrow> string \<Rightarrow> string \<Rightarrow> exn" where
  "policy_violation_v3 policy_result agent_id policy_id =
     HTTPException 403
       (JDict [(''error'', JStr ''policy_violation''),
               (''message'', dget policy_result ''reason'' (JStr ''Policy violation'')),
               (''agent_id'', JStr agent_id),
               (''policy_id'', JStr policy_id),
               (''violations'', dget policy_result ''violations'' (JList []))])"

text \<open>
  The checks that \<open>_run_enforcement_checks\<close> and \<open>require_policy\<close> both make, in the same
  words: coarse access, the policy record, the policy verdict, the extracted result.
\<close>

definition enforcement_core ::
  "sdk \<Rightarrow> string \<Rightarrow> string \<Rightarrow> json \<Rightarrow> (exn + MiddlewarePolicyResult) \<times> event list" where
  "enforcement_core sdk agent_id policy_id body =
     (case sdk_has_policy_access sdk agent_id policy_id body of
        Inl e \<Rightarrow> (Inl e, [SdkCall ''has_policy_access''])
      | Inr has_access \<Rightarrow>
          if \<not> has_access then
            (Inl (policy_access_denied agent_id policy_id), [SdkCall ''has_policy_access''])
          else
            (case sdk_get_policy sdk policy_id of
               Inl e \<Rightarrow> (Inl e, [SdkCall ''has_policy_access'', SdkCall ''get_policy''])
             | Inr policy \<Rightarrow>
                 if \<not> truthy policy then
                   (Inl (policy_not_found agent_id policy_id),
                    [SdkCall ''has_policy_access'', SdkCall ''get_policy''])
                 else
                   (let evs = [SdkCall ''has_policy_access'', SdkCall ''get_policy'',
                               SdkCall ''verify_policy'']
                    in case sdk_verify_policy sdk agent_id policy_id body of
                         Inl e \<Rightarrow> (Inl e, evs)
                       | Inr policy_result \<Rightarrow>
                          (case policy_result of
                             JDict kvs \<Rightarrow>
                               if \<not> truthy (dget kvs ''allowed'' (JBool False)) then
                                 (Inl (policy_violation_v3 kvs agent_id policy_id), evs)
                               else
                                 (case sdk_get_policy_result sdk policy_result of
                                    Inl e \<Rightarrow> (Inl e, evs)
                                  | Inr extracted \<Rightarrow>
                                      (Inr \<lparr> mpr_allowed = True,
                                             mpr_evaluation =
                                               (case extracted of Some d \<Rightarrow> d | None \<Rightarrow> JDict []),
                                             mpr_error = JNull \<rparr>,
                                       evs))
                           | _ \<Rightarrow> (Inl (attribute_error policy_result ''get''), evs)))))"

definition enforcement_error :: "string \<Rightarrow> string \<Rightarrow> string \<Rightarrow> exn" where
  "enforcement_error text agent_id policy_id =
     HTTPException 500
       (JDict [(''error'', JStr ''enforcement_error''),
               (''message'', JStr (''Failed to run enforcement checks: '' @ text)),
               (''agent_id'', JStr agent_id),
               (''policy_id'', JStr policy_id)])"

text \<open>
  \<open>_run_enforcement_checks\<close>: an \<open>HTTPException\<close> is raised again, any other exception
  becomes an \<open>HTTPException\<close> 500 whose message ends with \<open>str(e)\<close>.
\<close>

definition run_enforcement_checks ::
  "sdk \<Rightarrow> request \<Rightarrow> string \<Rightarrow> string \<Rightarrow> (exn + MiddlewarePolicyResult) \<times> event list" where
  "run_enforcement_checks sdk req agent_id policy_id =
     (case enforcement_core sdk agent_id policy_id (request_body req) of
        (Inr r, evs) \<Rightarrow> (Inr r, evs)
      | (Inl (HTTPException c d), evs) \<Rightarrow> (Inl (HTTPException c d), evs)
      | (Inl (AgentPassportError e), evs) \<Rightarrow>
          (Inl (enforcement_error (ape_text e) agent_id policy_id), evs)
      | (Inl (PyException cls text), evs) \<Rightarrow>
          (Inl (enforcement_error text agent_id policy_id), evs))"

definition missing_agent_id_401 :: response where
  "missing_agent_id_401 =
     JSONResponse 401
       (JDict [(''error'', JStr ''missing_agent_id''),
               (''message'', JStr ''Agent ID is required. Provide it as X-Agent-Passport-Id header.'')])"

definition agent_verification_failed_401 :: "ape \<Rightarrow> string \<Rightarrow> response" where
  "agent_verification_failed_401 e agent_id =
     JSONResponse 401
       (JDict [(''error'', JStr ''agent_verification_failed''),
               (''message'', JStr (ape_text e)),
               (''agent_id'', JStr agent_id)])"

definition middleware_error_500 :: response where
  "middleware_error_500 =
     JSONResponse 500
       (JDict [(''error'', JStr ''middleware_error''),
               (''message'', JStr ''Internal server error'')])"

definition run_v3 :: "sdk \<Rightarrow> (exn + response) \<Rightarrow> options \<Rightarrow> request \<Rightarrow> run" where
  "run_v3 sdk cn opts req =
     (if should_skip_verification opts req then (cn, rq_state req, [CallNext])
      else
        (case sdk_extract_agent_id_from_request sdk req of
           Inl e \<Rightarrow> (Inl e, rq_state req, [])
         | Inr agent_id \<Rightarrow>
             if \<not> str_truthy agent_id \<and> opt_fail_closed opts then
               (Inr missing_agent_id_401, rq_state req, [])
             else
               (case agent_id of
                  None \<Rightarrow> (cn, rq_state req, [CallNext])
                | Some aid \<Rightarrow>
                    if aid = [] then (cn, rq_state req, [CallNext])
                    else
                      (case sdk_verify_agent_passport sdk aid of
                         Inl (AgentPassportError e) \<Rightarrow>
                           (Inr (agent_verification_failed_401 e aid), rq_state req,
                            [SdkCall ''verify_agent_passport''])
                       | Inl e \<Rightarrow> (Inl e, rq_state req, [SdkCall ''verify_agent_passport''])
                       | Inr agent \<Rightarrow>
                          (let st1 = (rq_state req)\<lparr>st_agent := Some agent\<rparr>
                           in if str_truthy (opt_policy_id opts) then
                                (case run_enforcement_checks sdk req aid
                                        (case opt_policy_id opts of Some p \<Rightarrow> p | None \<Rightarrow> []) of
                                   (Inl e, evs) \<Rightarrow>
                                     (Inl e, st1, SdkCall ''verify_agent_passport'' # evs)
                                 | (Inr r, evs) \<Rightarrow>
                                     (cn, st1\<lparr>st_policy_result_v3 := Some r\<rparr>,
                                      SdkCall ''verify_agent_passport'' # evs @ [CallNext]))
                              else (cn, st1, [SdkCall ''verify_agent_passport'', CallNext]))))))"

text \<open>The single \<open>except Exception\<close> clause of middleware_v3's \<open>dispatch\<close>.\<close>

definition dispatch_v3 ::
  "sdk \<Rightarrow> (exn + response) \<Rightarrow> options \<Rightarrow> request \<Rightarrow> response \<times> req_state \<times> event list" where
  "dispatch_v3 sdk cn opts req =
     (case run_v3 sdk cn opts req of
        (Inr resp, st, tr) \<Rightarrow> (resp, st, tr)
      | (Inl e, st, tr) \<Rightarrow> (middleware_error_500, st, tr))"





section \<open>Notions used in the statements\<close>

text \<open>A cache entry under key \<open>k\<close> is live when it exists and has not expired at the look-up.\<close>

definition live_entry :: "world \<Rightarrow> mstate \<Rightarrow> string \<Rightarrow> bool" where
  "live_entry w s k =
     (case verification_cache s k of Some e \<Rightarrow> ce_expires e > now_check w | None \<Rightarrow> False)"

text \<open>
  The verification result the directory gives to a request, when the call completes:
  status 200 with a dictionary as body. Everything else (no connection, time-out, another
  status, a body that is no dictionary) is \<open>None\<close>.
\<close>

definition server_result ::
  "world \<Rightarrow> string \<Rightarrow> string \<Rightarrow> json \<Rightarrow> PolicyEnforcementConfig \<Rightarrow> (string \<times> json) list option" where
  "server_result w agent_id policy_id context config =
     (case http_post w (verify_url config policy_id) (verify_body agent_id context) of
        HttpResponse status (Some (JDict kvs)) \<Rightarrow> if status = 200 then Some kvs else None
      | _ \<Rightarrow> None)"

text \<open>
  The expiry a call stores: the time of storage plus \<open>cache_ttl\<close>, in float arithmetic.
\<close>

abbreviation expiry_of :: "world \<Rightarrow> PolicyEnforcementConfig \<Rightarrow> real" where
  "expiry_of w config \<equiv>
     float_round w (now_store w + float_round w (real_of_int (cache_ttl config)))"

text \<open>The events a call added to the trace.\<close>

definition new_events :: "mstate \<Rightarrow> mstate \<Rightarrow> event list" where
  "new_events s s' = drop (length (trace s)) (trace s')"

fun is_cache_write :: "event \<Rightarrow> bool" where
  "is_cache_write (CacheWrite k e) = True"
| "is_cache_write _ = False"

fun is_http_post :: "event \<Rightarrow> bool" where
  "is_http_post (HttpPost u b) = True"
| "is_http_post _ = False"

fun is_sdk_call :: "event \<Rightarrow> bool" where
  "is_sdk_call (SdkCall f) = True"
| "is_sdk_call _ = False"

fun status_of :: "response \<Rightarrow> int" where
  "status_of (JSONResponse c d) = c"
| "status_of (HandlerResponse c b) = c"

text \<open>The \<open>error\<close> field of a JSON response: its primary error code.\<close>

fun error_code_of :: "response \<Rightarrow> json" where
  "error_code_of (JSONResponse c (JDict kvs)) = dget kvs ''error'' JNull"
| "error_code_of _ = JNull"

text \<open>
  A request carries no agent identifier in its headers: no \<open>x-agent-passport-id\<close>, no
  \<open>x-agent-id\<close>, and no \<open>authorization\<close> header that starts with \<open>Bearer \<close>.
\<close>

definition no_agent_header :: "request \<Rightarrow> bool" where
  "no_agent_header req =
     (rq_headers req ''x-agent-passport-id'' = None
      \<and> rq_headers req ''x-agent-id'' = None
      \<and> (case rq_headers req ''authorization'' of
            None \<Rightarrow> True
          | Some a \<Rightarrow> \<not> prefix ''Bearer '' a))"

section \<open>A concrete scenario\<close>

text \<open>
  A directory that allows agent-1 a refund of 500 and denies every other request, a
  clock reading \<open>t\<close>, and a handler that answers 200. The clock readings and the
  \<open>cache_ttl\<close> of the scenario are small integers, which a float holds exactly and adds
  exactly, so rounding leaves them as they are.
\<close>

definition ex_allow :: "(string \<times> json) list" where
  "ex_allow = [(''allow'', JBool True)]"

definition ex_deny :: "(string \<times> json) list" where
  "ex_deny = [(''allow'', JBool False), (''reason'', JStr ''limit exceeded'')]"

definition ex_ctx_small :: json where
  "ex_ctx_small = JDict [(''amount_cents'', JInt 500)]"

definition ex_ctx_large :: json where
  "ex_ctx_large = JDict [(''amount_cents'', JInt 150000)]"

definition ex_handler :: "exn + response" where
  "ex_handler = Inr (HandlerResponse 200 ''ok'')"

definition ex_world :: "real \<Rightarrow> world" where
  "ex_world t =
     \<lparr> http_post = (\<lambda>url body.
          if body = verify_body ''agent-1'' ex_ctx_small
          then HttpResponse 200 (Some (JDict ex_allow))
          else HttpResponse 200 (Some (JDict ex_deny))),
       http_get = (\<lambda>url. HttpResponse 404 None),
       now_check = t, now_store = t, float_round = (\<lambda>x. x),
       now_iso = ''2025-01-01T00:00:00'',
       call_next = ex_handler \<rparr>"


definition ex_state0 :: mstate where
  "ex_state0 = \<lparr> verification_cache = Map.empty, trace = [] \<rparr>"

definition ex_state1 :: mstate where
  "ex_state1 =
     snd (verify_policy_compliance (ex_world 100) ''agent-1'' ''refund.v1'' ex_ctx_small
            default_config ex_state0)"

definition ex_request :: "json \<Rightarrow> request" where
  "ex_request body =
     \<lparr> rq_method = ''POST'', rq_path = ''/api/refund'',
       rq_headers = [''x-policy-id'' \<mapsto> ''refund.v1''],
       rq_json = Some body, rq_cached_json = None, rq_state = empty_state \<rparr>"

text \<open>
  For the SDK-based middlewares: an agent whose passport verifies, a route on which the
  capability and the assurance check both deny, and options without a policy.
\<close>

definition ex_agent :: AgentPassport where
  "ex_agent =
     \<lparr> ap_agent_id = JStr ''agent-1'', ap_permissions = JList [],
       ap_regions = JList [JStr ''US''],
       ap_capabilities = [JStr ''finance.payment.refund''],
       ap_limits = JDict [], ap_assurance_level = Some (JStr ''L0'') \<rparr>"

definition ex_sdk :: sdk where
  "ex_sdk =
     \<lparr> sdk_client_verify_agent_passport = (\<lambda>agent_id. Inr ex_agent),
       sdk_has_permission = (\<lambda>agent p. Inr True),
       sdk_is_allowed_in_region = (\<lambda>agent r. Inr (r = ''US'')),
       sdk_check_capability_requirement =
         (\<lambda>path caps. Inr [(''allowed'', JBool False), (''missing'', JList [JStr ''data.export''])]),
       sdk_check_assurance_requirement = (\<lambda>level path. Inr [(''allowed'', JBool False)]),
       sdk_check_mcp_requirement = (\<lambda>headers agent. Inr [(''allowed'', JBool True)]),
       sdk_check_region_requirements = (\<lambda>regions allowed. Inr [(''allowed'', JBool True)]),
       sdk_check_limits_for_operation = (\<lambda>operation limits data. Inr [(''allowed'', JBool True)]),
       sdk_extract_agent_id_from_request = (\<lambda>req. Inr (rq_headers req ''x-agent-passport-id'')),
       sdk_verify_agent_passport = (\<lambda>agent_id. Inr ex_agent),
       sdk_has_policy_access = (\<lambda>agent_id policy_id body. Inr True),
       sdk_get_policy = (\<lambda>policy_id. Inr (JDict [(''id'', JStr policy_id)])),
       sdk_verify_policy = (\<lambda>agent_id policy_id body. Inr (JDict [(''allowed'', JBool True)])),
       sdk_get_policy_result = (\<lambda>policy_result. Inr None),
       sdk_validate_policy_call = (\<lambda>agent_id policy_id. Inr (agent_id, policy_id)),
       sdk_validate_agent_id_present =
         (\<lambda>agent_id req. case agent_id of
                            Some a \<Rightarrow> Inr a
                          | None \<Rightarrow> Inl (HTTPException 400 (JStr ''agent id required''))),
       sdk_str = (\<lambda>v. ''?'') \<rparr>"

definition ex_options :: options where
  "ex_options =
     \<lparr> opt_fail_closed = True, opt_skip_paths = [''/health''], opt_skip_methods = [''OPTIONS''],
       opt_required_permissions = [], opt_allowed_regions = [], opt_policy_id = None \<rparr>"

definition ex_request_with :: "string \<Rightarrow> string \<Rightarrow> (string \<rightharpoonup> string) \<Rightarrow> request" where
  "ex_request_with method path headers =
     \<lparr> rq_method = method, rq_path = path, rq_headers = headers,
       rq_json = None, rq_cached_json = None, rq_state = empty_state \<rparr>"




text \<open>A policy pack, and a verification response whose evaluation has no \<open>regions_ok\<close>.\<close>

definition ex_policy :: PolicyPack where
  "ex_policy =
     \<lparr> pp_id = JStr ''refund.v1'', pp_name = JStr ''Refunds'',
       pp_requires_capabilities = JList [JStr ''finance.payment.refund''],
       pp_min_assurance = JStr ''L2'', pp_limits_required = JList [],
       pp_enforcement = JDict [] \<rparr>"

definition ex_evaluation_partial :: "(string \<times> json) list" where
  "ex_evaluation_partial =
     [(''capability_ok'', JBool True), (''assurance_ok'', JBool True), (''limits_ok'', JBool True)]"

definition ex_passport_partial :: "(string \<times> json) list" where
  "ex_passport_partial =
     [(''agent_id'', JStr ''agent-1''), (''evaluation'', JDict ex_evaluation_partial)]"

definition ex_response_partial :: "(string \<times> json) list" where
  "ex_response_partial = [(''allow'', JBool True), (''passport'', JDict ex_passport_partial)]"

text \<open>The module state after a denied request for the large refund.\<close>

text \<open>A configuration whose \<open>cache_ttl\<close> is beyond the range of a float.\<close>

definition ex_config_huge_ttl :: PolicyEnforcementConfig where
  "ex_config_huge_ttl = default_config\<lparr>cache_ttl := 10 ^ 309\<rparr>"

definition ex_state_denied :: mstate where
  "ex_state_denied =
     snd (verify_policy_compliance (ex_world 100) ''agent-1'' ''refund.v1'' ex_ctx_large
            default_config ex_state0)"


text \<open>The default configuration with \<open>fail_closed\<close> switched off.\<close>

definition ex_config_open :: PolicyEnforcementConfig where
  "ex_config_open = default_config\<lparr>fail_closed := False\<rparr>"


definition ex_request_agent :: request where
  "ex_request_agent =
     ex_request_with ''POST'' ''/api/refund'' [''x-agent-passport-id'' \<mapsto> ''agent-1'']"




text \<open>A request without any header.\<close>

definition ex_request_anonymous :: request where
  "ex_request_anonymous = ex_request_with ''POST'' ''/api/refund'' Map.empty"

text \<open>Options that name a policy, and an SDK whose policy verification denies.\<close>

definition ex_options_policy :: options where
  "ex_options_policy = ex_options\<lparr>opt_policy_id := Some ''refund.v1''\<rparr>"

definition ex_sdk_denying :: sdk where
  "ex_sdk_denying =
     ex_sdk\<lparr>sdk_verify_policy :=
              (\<lambda>agent_id policy_id body.
                 Inr (JDict [(''allowed'', JBool False), (''reason'', JStr ''limit exceeded'')]))\<rparr>"

text \<open>A verification response whose evaluation holds all four dimensions, each true.\<close>

definition ex_evaluation_full :: "(string \<times> json) list" where
  "ex_evaluation_full =
     [(''capability_ok'', JBool True), (''assurance_ok'', JBool True), (''limits_ok'', JBool True),
      (''regions_ok'', JBool True)]"

definition ex_passport_full :: "(string \<times> json) list" where
  "ex_passport_full =
     [(''agent_id'', JStr ''agent-1''), (''evaluation'', JDict ex_evaluation_full)]"

definition ex_response_full :: "(string \<times> json) list" where
  "ex_response_full = [(''allow'', JBool True), (''passport'', JDict ex_passport_full)]"

section \<open>Properties of policy_enforcement_v2\<close>

subsection \<open>Policy access\<close>

lemma convert_checks:
  assumes "dget rs ''passport'' (JDict []) = JDict pd"
      and "dget pd ''evaluation'' (JDict []) = JDict ev"
  shows "\<exists>r. convert_policy_response stamp (JDict rs) policy = Inr r
           \<and> pr_checks r =
               [(''capability'', dget ev ''capability_ok'' (JBool False)),
                (''assurance'', dget ev ''assurance_ok'' (JBool False)),
                (''limits'', dget ev ''limits_ok'' (JBool False)),
                (''regions'', dget ev ''regions_ok'' (JBool False))]"
  using assms by (simp add: convert_policy_response_def py_get_def)

lemma has_policy_access_attached:
  "has_policy_access (req\<lparr>rq_state := (rq_state req)\<lparr>st_policy_result := Some r\<rparr>\<rparr>)
     = list_all truthy (map snd (pr_checks r))"
  by (simp add: has_policy_access_def get_policy_result_def)

lemma dget_truthy_default_False:
  "truthy (dget ev k (JBool False)) \<longleftrightarrow> (\<exists>v. map_of ev k = Some v \<and> truthy v)"
  by (cases "map_of ev k") (simp_all add: dget_def)

text \<open>
  C4. \<open>has_policy_access\<close> returns true exactly when a policy result is attached to the
  request and every value of its \<open>checks\<close> is true (in Python's sense, as \<open>all\<close> reads
  it). The checks of a converted verification response are the four values
  \<open>capability_ok\<close>, \<open>assurance_ok\<close>, \<open>limits_ok\<close>, \<open>regions_ok\<close> of its evaluation, each
  \<open>False\<close> when it is missing: the request with the converted result attached has policy
  access exactly when all four are present and true, and has none when one is missing.
\<close>

theorem has_policy_access_all_checks:
  "(has_policy_access req \<longleftrightarrow>
      (\<exists>r. st_policy_result (rq_state req) = Some r \<and> (\<forall>(k, v) \<in> set (pr_checks r). truthy v)))
   \<and> (dget rs ''passport'' (JDict []) = JDict pd
        \<and> dget pd ''evaluation'' (JDict []) = JDict ev
      \<longrightarrow> (\<exists>r. convert_policy_response stamp (JDict rs) policy = Inr r
             \<and> pr_checks r =
                 [(''capability'', dget ev ''capability_ok'' (JBool False)),
                  (''assurance'', dget ev ''assurance_ok'' (JBool False)),
                  (''limits'', dget ev ''limits_ok'' (JBool False)),
                  (''regions'', dget ev ''regions_ok'' (JBool False))]
             \<and> (has_policy_access (req\<lparr>rq_state := (rq_state req)\<lparr>st_policy_result := Some r\<rparr>\<rparr>)
                  \<longleftrightarrow> ((\<exists>v. map_of ev ''capability_ok'' = Some v \<and> truthy v)
                       \<and> (\<exists>v. map_of ev ''assurance_ok'' = Some v \<and> truthy v)
                       \<and> (\<exists>v. map_of ev ''limits_ok'' = Some v \<and> truthy v)
                       \<and> (\<exists>v. map_of ev ''regions_ok'' = Some v \<and> truthy v)))))
   \<and> (dget rs ''passport'' (JDict []) = JDict pd
        \<and> dget pd ''evaluation'' (JDict []) = JDict ev
        \<and> k \<in> {''capability_ok'', ''assurance_ok'', ''limits_ok'', ''regions_ok''}
        \<and> map_of ev k = None
      \<longrightarrow> (\<exists>r. convert_policy_response stamp (JDict rs) policy = Inr r
             \<and> \<not> has_policy_access (req\<lparr>rq_state := (rq_state req)\<lparr>st_policy_result := Some r\<rparr>\<rparr>)))"
proof -
  have 1: "has_policy_access req \<longleftrightarrow>
      (\<exists>r. st_policy_result (rq_state req) = Some r \<and> (\<forall>(k, v) \<in> set (pr_checks r). truthy v))"
    by (auto simp: has_policy_access_def get_policy_result_def list_all_iff split: option.splits)
  have 2: "\<exists>r. convert_policy_response stamp (JDict rs) policy = Inr r
             \<and> pr_checks r =
                 [(''capability'', dget ev ''capability_ok'' (JBool False)),
                  (''assurance'', dget ev ''assurance_ok'' (JBool False)),
                  (''limits'', dget ev ''limits_ok'' (JBool False)),
                  (''regions'', dget ev ''regions_ok'' (JBool False))]
             \<and> (has_policy_access (req\<lparr>rq_state := (rq_state req)\<lparr>st_policy_result := Some r\<rparr>\<rparr>)
                  \<longleftrightarrow> ((\<exists>v. map_of ev ''capability_ok'' = Some v \<and> truthy v)
                       \<and> (\<exists>v. map_of ev ''assurance_ok'' = Some v \<and> truthy v)
                       \<and> (\<exists>v. map_of ev ''limits_ok'' = Some v \<and> truthy v)
                       \<and> (\<exists>v. map_of ev ''regions_ok'' = Some v \<and> truthy v)))"
    if h: "dget rs ''passport'' (JDict []) = JDict pd" "dget pd ''evaluation'' (JDict []) = JDict ev"
  proof -
    from convert_checks [OF h] obtain r
      where r: "convert_policy_response stamp (JDict rs) policy = Inr r"
        and c: "pr_checks r =
               [(''capability'', dget ev ''capability_ok'' (JBool False)),
                (''assurance'', dget ev ''assurance_ok'' (JBool False)),
                (''limits'', dget ev ''limits_ok'' (JBool False)),
                (''regions'', dget ev ''regions_ok'' (JBool False))]"
      by blast
    have "has_policy_access (req\<lparr>rq_state := (rq_state req)\<lparr>st_policy_result := Some r\<rparr>\<rparr>)
            \<longleftrightarrow> ((\<exists>v. map_of ev ''capability_ok'' = Some v \<and> truthy v)
                       \<and> (\<exists>v. map_of ev ''assurance_ok'' = Some v \<and> truthy v)
                       \<and> (\<exists>v. map_of ev ''limits_ok'' = Some v \<and> truthy v)
                       \<and> (\<exists>v. map_of ev ''regions_ok'' = Some v \<and> truthy v))"
      by (simp add: has_policy_access_attached c dget_truthy_default_False)
    with r c show ?thesis by (intro exI [of _ r] conjI)
  qed
  have 3: "\<exists>r. convert_policy_response stamp (JDict rs) policy = Inr r
             \<and> \<not> has_policy_access (req\<lparr>rq_state := (rq_state req)\<lparr>st_policy_result := Some r\<rparr>\<rparr>)"
    if h: "dget rs ''passport'' (JDict []) = JDict pd" "dget pd ''evaluation'' (JDict []) = JDict ev"
      and k: "k \<in> {''capability_ok'', ''assurance_ok'', ''limits_ok'', ''regions_ok''}"
             "map_of ev k = None"
  proof -
    from 2 [OF h] obtain r
      where r: "convert_policy_response stamp (JDict rs) policy = Inr r"
        and a: "has_policy_access (req\<lparr>rq_state := (rq_state req)\<lparr>st_policy_result := Some r\<rparr>\<rparr>)
                  \<longleftrightarrow> ((\<exists>v. map_of ev ''capability_ok'' = Some v \<and> truthy v)
                       \<and> (\<exists>v. map_of ev ''assurance_ok'' = Some v \<and> truthy v)
                       \<and> (\<exists>v. map_of ev ''limits_ok'' = Some v \<and> truthy v)
                       \<and> (\<exists>v. map_of ev ''regions_ok'' = Some v \<and> truthy v))"
      by blast
    from k have "\<not> ((\<exists>v. map_of ev ''capability_ok'' = Some v \<and> truthy v)
                       \<and> (\<exists>v. map_of ev ''assurance_ok'' = Some v \<and> truthy v)
                       \<and> (\<exists>v. map_of ev ''limits_ok'' = Some v \<and> truthy v)
                       \<and> (\<exists>v. map_of ev ''regions_ok'' = Some v \<and> truthy v))"
      by auto
    with a have "\<not> has_policy_access (req\<lparr>rq_state := (rq_state req)\<lparr>st_policy_result := Some r\<rparr>\<rparr>)"
      by simp
    with r show ?thesis by (intro exI [of _ r] conjI)
  qed
  show ?thesis
  proof (intro conjI impI)
    show "has_policy_access req \<longleftrightarrow>
      (\<exists>r. st_policy_result (rq_state req) = Some r \<and> (\<forall>(k, v) \<in> set (pr_checks r). truthy v))"
      by (rule 1)
  qed ((elim conjE)?, (rule 2 3; assumption))+
qed

theorem has_policy_access_all_checks_witness:
  "(\<exists>r. convert_policy_response ''2025-01-01T00:00:00'' (JDict ex_response_full) ex_policy = Inr r
        \<and> has_policy_access
             ((ex_request ex_ctx_small)\<lparr>rq_state :=
                 (rq_state (ex_request ex_ctx_small))\<lparr>st_policy_result := Some r\<rparr>\<rparr>))
   \<and> (\<exists>r. convert_policy_response ''2025-01-01T00:00:00'' (JDict ex_response_partial) ex_policy = Inr r
        \<and> \<not> has_policy_access
             ((ex_request ex_ctx_small)\<lparr>rq_state :=
                 (rq_state (ex_request ex_ctx_small))\<lparr>st_policy_result := Some r\<rparr>\<rparr>))
   \<and> \<not> has_policy_access (ex_request ex_ctx_small)"
proof -
  have pf: "dget ex_response_full ''passport'' (JDict []) = JDict ex_passport_full"
    by (simp add: ex_response_full_def dget_def)
  have ef: "dget ex_passport_full ''evaluation'' (JDict []) = JDict ex_evaluation_full"
    by (simp add: ex_passport_full_def dget_def)
  have af: "(\<exists>v. map_of ex_evaluation_full ''capability_ok'' = Some v \<and> truthy v)
            \<and> (\<exists>v. map_of ex_evaluation_full ''assurance_ok'' = Some v \<and> truthy v)
            \<and> (\<exists>v. map_of ex_evaluation_full ''limits_ok'' = Some v \<and> truthy v)
            \<and> (\<exists>v. map_of ex_evaluation_full ''regions_ok'' = Some v \<and> truthy v)"
    by (simp add: ex_evaluation_full_def)
  note t = has_policy_access_all_checks
      [of "ex_request ex_ctx_small" ex_response_full ex_passport_full ex_evaluation_full
          "''2025-01-01T00:00:00''" ex_policy]
  from t [THEN conjunct2, THEN conjunct1, THEN mp, OF conjI [OF pf ef]] obtain r
    where r: "convert_policy_response ''2025-01-01T00:00:00'' (JDict ex_response_full) ex_policy = Inr r"
      and a: "has_policy_access
                ((ex_request ex_ctx_small)\<lparr>rq_state :=
                    (rq_state (ex_request ex_ctx_small))\<lparr>st_policy_result := Some r\<rparr>\<rparr>)
              \<longleftrightarrow> ((\<exists>v. map_of ex_evaluation_full ''capability_ok'' = Some v \<and> truthy v)
                   \<and> (\<exists>v. map_of ex_evaluation_full ''assurance_ok'' = Some v \<and> truthy v)
                   \<and> (\<exists>v. map_of ex_evaluation_full ''limits_ok'' = Some v \<and> truthy v)
                   \<and> (\<exists>v. map_of ex_evaluation_full ''regions_ok'' = Some v \<and> truthy v))"
    by (elim exE conjE)
  from a af have "has_policy_access
                ((ex_request ex_ctx_small)\<lparr>rq_state :=
                    (rq_state (ex_request ex_ctx_small))\<lparr>st_policy_result := Some r\<rparr>\<rparr>)"
    by (rule iffD2)
  with r have f: "\<exists>r. convert_policy_response ''2025-01-01T00:00:00'' (JDict ex_response_full) ex_policy = Inr r
        \<and> has_policy_access
             ((ex_request ex_ctx_small)\<lparr>rq_state :=
                 (rq_state (ex_request ex_ctx_small))\<lparr>st_policy_result := Some r\<rparr>\<rparr>)"
    by (intro exI conjI)
  have pp: "dget ex_response_partial ''passport'' (JDict []) = JDict ex_passport_partial"
    by (simp add: ex_response_partial_def dget_def)
  have ep: "dget ex_passport_partial ''evaluation'' (JDict []) = JDict ex_evaluation_partial"
    by (simp add: ex_passport_partial_def dget_def)
  have mk: "''regions_ok'' \<in> {''capability_ok'', ''assurance_ok'', ''limits_ok'', ''regions_ok''}"
    by simp
  have mn: "map_of ex_evaluation_partial ''regions_ok'' = None"
    by (simp add: ex_evaluation_partial_def)
  note u = has_policy_access_all_checks
      [of "ex_request ex_ctx_small" ex_response_partial ex_passport_partial ex_evaluation_partial
          "''2025-01-01T00:00:00''" ex_policy "''regions_ok''"]
  have p: "\<exists>r. convert_policy_response ''2025-01-01T00:00:00'' (JDict ex_response_partial) ex_policy = Inr r
        \<and> \<not> has_policy_access
             ((ex_request ex_ctx_small)\<lparr>rq_state :=
                 (rq_state (ex_request ex_ctx_small))\<lparr>st_policy_result := Some r\<rparr>\<rparr>)"
    by (rule u [THEN conjunct2, THEN conjunct2, THEN mp]) (intro conjI pp ep mk mn)
  have n: "st_policy_result (rq_state (ex_request ex_ctx_small)) = None"
    by (simp add: ex_request_def empty_state_def)
  have "\<not> has_policy_access (ex_request ex_ctx_small)"
    unfolding u [THEN conjunct1] n by simp
  with f p show ?thesis by (intro conjI)
qed

subsection \<open>The verification cache\<close>

lemma new_events_self [simp]: "new_events s s = []"
  by (simp add: new_events_def)

lemma new_events_append [simp]:
  "trace s' = trace s @ evs \<Longrightarrow> new_events s s' = evs"
  by (simp add: new_events_def)

lemma fetch_allowed:
  assumes "server_result w a p c cfg = Some kvs" "truthy (dget kvs ''allow'' JNull)"
      and "int_fits_float (cache_ttl cfg)"
  shows "fetch_verification w a p c cfg s =
           (JDict kvs,
            \<lparr> verification_cache = (verification_cache s)(cache_key p a \<mapsto>
                 \<lparr> ce_result = JDict kvs, ce_expires = expiry_of w cfg \<rparr>),
              trace = trace s @ [HttpPost (verify_url cfg p) (verify_body a c),
                                 CacheWrite (cache_key p a)
                                   \<lparr> ce_result = JDict kvs, ce_expires = expiry_of w cfg \<rparr>] \<rparr>)"
  using assms
  by (auto simp: server_result_def fetch_verification_def py_get_def py_float_add_def emit_def Let_def
           split: http_outcome.splits option.splits json.splits if_splits)

lemma fetch_overflow:
  assumes "server_result w a p c cfg = Some kvs" "truthy (dget kvs ''allow'' JNull)"
      and "\<not> int_fits_float (cache_ttl cfg)"
  shows "fetch_verification w a p c cfg s =
           (JNull,
            s\<lparr>trace := trace s @ [HttpPost (verify_url cfg p) (verify_body a c),
                                  LogError ''Error verifying policy compliance'']\<rparr>)"
  using assms
  by (auto simp: server_result_def fetch_verification_def py_get_def py_float_add_def emit_def Let_def
           split: http_outcome.splits option.splits json.splits if_splits)

lemma fetch_denied:
  assumes "server_result w a p c cfg = Some kvs" "\<not> truthy (dget kvs ''allow'' JNull)"
  shows "fetch_verification w a p c cfg s =
           (JDict kvs, s\<lparr>trace := trace s @ [HttpPost (verify_url cfg p) (verify_body a c)]\<rparr>)"
  using assms
  by (auto simp: server_result_def fetch_verification_def py_get_def emit_def Let_def
           split: http_outcome.splits option.splits json.splits if_splits)

lemma fetch_failed:
  assumes "server_result w a p c cfg = None"
  shows "\<exists>m. fetch_verification w a p c cfg s =
           (JNull, s\<lparr>trace := trace s @ [HttpPost (verify_url cfg p) (verify_body a c), LogError m]\<rparr>)"
  using assms
  by (auto simp: server_result_def fetch_verification_def py_get_def emit_def Let_def
           split: http_outcome.splits option.splits json.splits if_splits)

lemma fetch_posts:
  "HttpPost (verify_url cfg p) (verify_body a c)
     \<in> set (new_events s (snd (fetch_verification w a p c cfg s)))"
proof (cases "server_result w a p c cfg")
  case None
  from fetch_failed [OF None, of s] show ?thesis by auto
next
  case (Some kvs)
  show ?thesis
  proof (cases "truthy (dget kvs ''allow'' JNull)")
    case False
    then show ?thesis by (simp add: fetch_denied [OF Some])
  next
    case True
    show ?thesis
      by (cases "int_fits_float (cache_ttl cfg)")
         (simp_all add: fetch_allowed [OF Some True] fetch_overflow [OF Some True])
  qed
qed

lemma fetch_writes_iff:
  "list_ex is_cache_write (new_events s (snd (fetch_verification w a p c cfg s)))
     \<longleftrightarrow> (\<exists>kvs. server_result w a p c cfg = Some kvs \<and> truthy (dget kvs ''allow'' JNull))
         \<and> int_fits_float (cache_ttl cfg)"
proof (cases "server_result w a p c cfg")
  case None
  from fetch_failed [OF None, of s] show ?thesis using None by auto
next
  case (Some kvs)
  show ?thesis
  proof (cases "truthy (dget kvs ''allow'' JNull)")
    case False
    then show ?thesis by (simp add: fetch_denied [OF Some] Some)
  next
    case True
    show ?thesis
      by (cases "int_fits_float (cache_ttl cfg)")
         (simp_all add: fetch_allowed [OF Some True] fetch_overflow [OF Some True] Some True)
  qed
qed

lemma fetch_cache_unchanged:
  assumes "\<not> ((\<exists>kvs. server_result w a p c cfg = Some kvs \<and> truthy (dget kvs ''allow'' JNull))
              \<and> int_fits_float (cache_ttl cfg))"
  shows "verification_cache (snd (fetch_verification w a p c cfg s)) = verification_cache s"
proof (cases "server_result w a p c cfg")
  case None
  from fetch_failed [OF None, of s] show ?thesis by auto
next
  case (Some kvs)
  show ?thesis
  proof (cases "truthy (dget kvs ''allow'' JNull)")
    case False
    then show ?thesis by (simp add: fetch_denied [OF Some])
  next
    case True
    with assms Some have "\<not> int_fits_float (cache_ttl cfg)" by simp
    then show ?thesis by (simp add: fetch_overflow [OF Some True])
  qed
qed

lemma verify_hit:
  assumes "verification_cache s (cache_key p a) = Some e" "now_check w < ce_expires e"
  shows "verify_policy_compliance w a p c cfg s = (ce_result e, s)"
  using assms by (simp add: verify_policy_compliance_def)

lemma verify_live:
  assumes "live_entry w s (cache_key p a)"
  shows "snd (verify_policy_compliance w a p c cfg s) = s"
  using assms by (auto simp: verify_policy_compliance_def live_entry_def split: option.splits)

lemma verify_miss:
  assumes "\<not> live_entry w s (cache_key p a)"
  shows "verify_policy_compliance w a p c cfg s = fetch_verification w a p c cfg s"
  using assms by (auto simp: verify_policy_compliance_def live_entry_def split: option.splits)

lemma not_live_later:
  assumes "\<not> live_entry w s k" "now_check w \<le> now_check w2" "verification_cache s1 = verification_cache s"
  shows "\<not> live_entry w2 s1 k"
  using assms by (auto simp: live_entry_def split: option.splits)

lemma verify_writes_iff:
  "list_ex is_cache_write (new_events s (snd (verify_policy_compliance w a p c cfg s)))
     \<longleftrightarrow> \<not> live_entry w s (cache_key p a)
         \<and> (\<exists>kvs. server_result w a p c cfg = Some kvs \<and> truthy (dget kvs ''allow'' JNull))
         \<and> int_fits_float (cache_ttl cfg)"
proof (cases "live_entry w s (cache_key p a)")
  case True
  then show ?thesis by (simp add: verify_live)
next
  case False
  then show ?thesis by (simp add: verify_miss fetch_writes_iff)
qed

lemma verify_cache_unchanged:
  assumes "\<not> (\<not> live_entry w s (cache_key p a)
         \<and> (\<exists>kvs. server_result w a p c cfg = Some kvs \<and> truthy (dget kvs ''allow'' JNull))
         \<and> int_fits_float (cache_ttl cfg))"
  shows "verification_cache (snd (verify_policy_compliance w a p c cfg s)) = verification_cache s"
proof (cases "live_entry w s (cache_key p a)")
  case True
  then show ?thesis by (simp add: verify_live)
next
  case False
  with assms show ?thesis by (simp add: verify_miss fetch_cache_unchanged)
qed

lemma denied_twice:
  assumes miss: "\<not> live_entry w s (cache_key p a)"
      and res: "server_result w a p c cfg = Some kvs"
      and deny: "\<not> truthy (dget kvs ''allow'' JNull)"
      and later: "now_check w \<le> now_check w2"
  shows "fst (verify_policy_compliance w a p c cfg s) = JDict kvs"
    and "verification_cache (snd (verify_policy_compliance w a p c cfg s)) = verification_cache s"
    and "HttpPost (verify_url cfg p) (verify_body a c)
           \<in> set (new_events s (snd (verify_policy_compliance w a p c cfg s)))"
    and "HttpPost (verify_url cfg p) (verify_body a c)
           \<in> set (new_events (snd (verify_policy_compliance w a p c cfg s))
                   (snd (verify_policy_compliance w2 a p c cfg
                           (snd (verify_policy_compliance w a p c cfg s)))))"
proof -
  let ?s1 = "snd (verify_policy_compliance w a p c cfg s)"
  have v: "verify_policy_compliance w a p c cfg s = fetch_verification w a p c cfg s"
    by (rule verify_miss [OF miss])
  show "fst (verify_policy_compliance w a p c cfg s) = JDict kvs"
    by (simp add: v fetch_denied [OF res deny])
  show c: "verification_cache ?s1 = verification_cache s"
    by (simp add: v fetch_denied [OF res deny])
  show "HttpPost (verify_url cfg p) (verify_body a c) \<in> set (new_events s ?s1)"
    unfolding v by (rule fetch_posts)
  have "\<not> live_entry w2 ?s1 (cache_key p a)"
    by (rule not_live_later [OF miss later c])
  then have "verify_policy_compliance w2 a p c cfg ?s1 = fetch_verification w2 a p c cfg ?s1"
    by (rule verify_miss)
  then show "HttpPost (verify_url cfg p) (verify_body a c)
           \<in> set (new_events ?s1 (snd (verify_policy_compliance w2 a p c cfg ?s1)))"
    by (simp add: fetch_posts)
qed

lemma allowed_stored:
  assumes miss: "\<not> live_entry w s (cache_key p a)"
      and res: "server_result w a p c cfg = Some kvs"
      and allow: "truthy (dget kvs ''allow'' JNull)"
      and fits: "int_fits_float (cache_ttl cfg)"
  shows "fst (verify_policy_compliance w a p c cfg s) = JDict kvs"
    and "verification_cache (snd (verify_policy_compliance w a p c cfg s)) =
           (verification_cache s)(cache_key p a \<mapsto>
              \<lparr> ce_result = JDict kvs, ce_expires = expiry_of w cfg \<rparr>)"
  by (simp_all add: verify_miss [OF miss] fetch_allowed [OF res allow fits])

lemma allowed_cached:
  assumes miss: "\<not> live_entry w s (cache_key p a)"
      and res: "server_result w a p c cfg = Some kvs"
      and allow: "truthy (dget kvs ''allow'' JNull)"
      and fits: "int_fits_float (cache_ttl cfg)"
  shows "now_check w2 < expiry_of w cfg \<Longrightarrow>
           verify_policy_compliance w2 a p c2 cfg (snd (verify_policy_compliance w a p c cfg s))
             = (JDict kvs, snd (verify_policy_compliance w a p c cfg s))"
    and "expiry_of w cfg \<le> now_check w2 \<Longrightarrow>
           HttpPost (verify_url cfg p) (verify_body a c2)
             \<in> set (new_events (snd (verify_policy_compliance w a p c cfg s))
                     (snd (verify_policy_compliance w2 a p c2 cfg
                             (snd (verify_policy_compliance w a p c cfg s)))))"
proof -
  let ?s1 = "snd (verify_policy_compliance w a p c cfg s)"
  let ?e = "\<lparr> ce_result = JDict kvs, ce_expires = expiry_of w cfg \<rparr>"
  have e: "verification_cache ?s1 (cache_key p a) = Some ?e"
    by (simp add: allowed_stored(2) [OF assms])
  show "verify_policy_compliance w2 a p c2 cfg ?s1 = (JDict kvs, ?s1)"
    if "now_check w2 < expiry_of w cfg"
  proof -
    from that have "now_check w2 < ce_expires ?e" by simp
    from verify_hit [OF e this] show ?thesis by simp
  qed
  show "HttpPost (verify_url cfg p) (verify_body a c2)
             \<in> set (new_events ?s1 (snd (verify_policy_compliance w2 a p c2 cfg ?s1)))"
    if "expiry_of w cfg \<le> now_check w2"
  proof -
    from that e have "\<not> live_entry w2 ?s1 (cache_key p a)"
      by (simp add: live_entry_def)
    then have "verify_policy_compliance w2 a p c2 cfg ?s1 = fetch_verification w2 a p c2 cfg ?s1"
      by (rule verify_miss)
    then show ?thesis by (simp add: fetch_posts)
  qed
qed

lemma allowed_overflow:
  assumes miss: "\<not> live_entry w s (cache_key p a)"
      and res: "server_result w a p c cfg = Some kvs"
      and allow: "truthy (dget kvs ''allow'' JNull)"
      and big: "\<not> int_fits_float (cache_ttl cfg)"
  shows "verify_policy_compliance w a p c cfg s =
           (JNull,
            s\<lparr>trace := trace s @ [HttpPost (verify_url cfg p) (verify_body a c),
                                  LogError ''Error verifying policy compliance'']\<rparr>)"
  by (simp add: verify_miss [OF miss] fetch_overflow [OF res allow big])

lemma cache_key_inj:
  assumes "CHR '':'' \<notin> set p" "CHR '':'' \<notin> set p'"
  shows "cache_key p a = cache_key p' a' \<longleftrightarrow> p = p' \<and> a = a'"
proof
  assume "cache_key p a = cache_key p' a'"
  then have eq: "p @ CHR '':'' # a = p' @ CHR '':'' # a'"
    by (simp add: cache_key_def)
  have t: "takeWhile (\<lambda>x. x \<noteq> CHR '':'') (q @ CHR '':'' # b) = q"
    and d: "dropWhile (\<lambda>x. x \<noteq> CHR '':'') (q @ CHR '':'' # b) = CHR '':'' # b"
    if "CHR '':'' \<notin> set q" for q b
    using that by (induction q) auto
  from eq t [OF assms(1), of a] t [OF assms(2), of a'] have "p = p'" by simp
  moreover from eq d [OF assms(1), of a] d [OF assms(2), of a'] have "a = a'" by simp
  ultimately show "p = p' \<and> a = a'" ..
qed simp

lemma ex_server_small:
  "server_result (ex_world t) ''agent-1'' ''refund.v1'' ex_ctx_small default_config = Some ex_allow"
  by (simp add: server_result_def ex_world_def)

lemma ex_server_large:
  "server_result (ex_world t) ''agent-1'' ''refund.v1'' ex_ctx_large default_config = Some ex_deny"
  by (simp add: server_result_def ex_world_def verify_body_def ex_ctx_small_def ex_ctx_large_def)

lemma ex_server_small_huge:
  "server_result (ex_world t) ''agent-1'' ''refund.v1'' ex_ctx_small ex_config_huge_ttl = Some ex_allow"
  by (simp add: server_result_def ex_world_def)

lemma ex_allow_truthy: "truthy (dget ex_allow ''allow'' JNull)"
  by (simp add: ex_allow_def dget_def)

lemma ex_deny_falsy: "\<not> truthy (dget ex_deny ''allow'' JNull)"
  by (simp add: ex_deny_def dget_def)

lemma ex_not_live0: "\<not> live_entry w ex_state0 k"
  by (simp add: live_entry_def ex_state0_def)

lemma ex_clock [simp]:
  "now_check (ex_world t) = t" "now_store (ex_world t) = t" "float_round (ex_world t) x = x"
  by (simp_all add: ex_world_def)

lemma ex_ttl [simp]: "cache_ttl default_config = 60"
  by (simp add: default_config_def)

lemma ex_ttl_fits: "int_fits_float (cache_ttl default_config)"
  by (simp add: int_fits_float_def)

lemma ex_ttl_huge: "\<not> int_fits_float (cache_ttl ex_config_huge_ttl)"
  by (simp add: int_fits_float_def ex_config_huge_ttl_def)

lemma ex_state1_entry:
  "verification_cache ex_state1 (cache_key ''refund.v1'' ''agent-1'')
     = Some \<lparr> ce_result = JDict ex_allow, ce_expires = 160 \<rparr>"
  unfolding ex_state1_def verify_miss [OF ex_not_live0]
  by (simp add: fetch_allowed [OF ex_server_small ex_allow_truthy ex_ttl_fits])

text \<open>
  C1, as the code has it. The cache key is the string \<open>policy:<policy_id>:<agent_id>\<close>;
  the request context is no part of it. A call looks up that key and no other: a live
  entry under it is returned with the module state left as it is, whatever the context,
  and without a live entry under it the call posts to the directory. A call that stores
  an allow-decision stores it under that key and changes no other key. So after such a
  call, every call for the same agent and policy before the stored expiry returns that
  decision, for any context \<open>c2\<close>, without contacting the directory. Policy ids that
  hold no colon give different keys for different pairs of policy and agent.
\<close>

theorem verification_cache_by_policy_and_agent:
  "cache_key p a = ''policy:'' @ p @ '':'' @ a
   \<and> (verification_cache s (''policy:'' @ p @ '':'' @ a) = Some e \<and> now_check w < ce_expires e
      \<longrightarrow> verify_policy_compliance w a p c cfg s = (ce_result e, s))
   \<and> (\<not> live_entry w s (''policy:'' @ p @ '':'' @ a)
      \<longrightarrow> HttpPost (verify_url cfg p) (verify_body a c)
            \<in> set (new_events s (snd (verify_policy_compliance w a p c cfg s))))
   \<and> (\<not> live_entry w s (''policy:'' @ p @ '':'' @ a)
        \<and> server_result w a p c cfg = Some kvs \<and> truthy (dget kvs ''allow'' JNull)
        \<and> int_fits_float (cache_ttl cfg)
      \<longrightarrow> verification_cache (snd (verify_policy_compliance w a p c cfg s)) =
            (verification_cache s)(''policy:'' @ p @ '':'' @ a \<mapsto>
               \<lparr> ce_result = JDict kvs, ce_expires = expiry_of w cfg \<rparr>)
        \<and> (now_check w2 < expiry_of w cfg
            \<longrightarrow> verify_policy_compliance w2 a p c2 cfg (snd (verify_policy_compliance w a p c cfg s))
                  = (JDict kvs, snd (verify_policy_compliance w a p c cfg s))))
   \<and> (CHR '':'' \<notin> set p \<and> CHR '':'' \<notin> set p'
      \<longrightarrow> (cache_key p a = cache_key p' a' \<longleftrightarrow> p = p' \<and> a = a'))"
proof -
  have k: "cache_key p a = ''policy:'' @ p @ '':'' @ a"
    by (simp add: cache_key_def)
  have r: "verification_cache s (''policy:'' @ p @ '':'' @ a) = Some e \<and> now_check w < ce_expires e
      \<longrightarrow> verify_policy_compliance w a p c cfg s = (ce_result e, s)"
    using verify_hit [of s p a e w c cfg] by (simp add: k)
  have m: "\<not> live_entry w s (''policy:'' @ p @ '':'' @ a)
      \<longrightarrow> HttpPost (verify_url cfg p) (verify_body a c)
            \<in> set (new_events s (snd (verify_policy_compliance w a p c cfg s)))"
    using verify_miss [of w s p a c cfg] fetch_posts [of cfg p a c s w] by (simp add: k)
  have st: "\<not> live_entry w s (''policy:'' @ p @ '':'' @ a)
        \<and> server_result w a p c cfg = Some kvs \<and> truthy (dget kvs ''allow'' JNull)
        \<and> int_fits_float (cache_ttl cfg)
      \<longrightarrow> verification_cache (snd (verify_policy_compliance w a p c cfg s)) =
            (verification_cache s)(''policy:'' @ p @ '':'' @ a \<mapsto>
               \<lparr> ce_result = JDict kvs, ce_expires = expiry_of w cfg \<rparr>)
        \<and> (now_check w2 < expiry_of w cfg
            \<longrightarrow> verify_policy_compliance w2 a p c2 cfg (snd (verify_policy_compliance w a p c cfg s))
                  = (JDict kvs, snd (verify_policy_compliance w a p c cfg s)))"
    using allowed_stored(2) [of w s p a c cfg kvs] allowed_cached(1) [of w s p a c cfg kvs w2 c2]
    by (simp add: k)
  have i: "CHR '':'' \<notin> set p \<and> CHR '':'' \<notin> set p'
      \<longrightarrow> (cache_key p a = cache_key p' a' \<longleftrightarrow> p = p' \<and> a = a')"
    using cache_key_inj by blast
  from k r m st i show ?thesis by blast
qed

theorem verification_cache_by_policy_and_agent_witness:
  "verify_policy_compliance (ex_world 110) ''agent-1'' ''refund.v1'' ex_ctx_large default_config
       (snd (verify_policy_compliance (ex_world 100) ''agent-1'' ''refund.v1'' ex_ctx_small
               default_config ex_state0))
     = (JDict ex_allow,
        snd (verify_policy_compliance (ex_world 100) ''agent-1'' ''refund.v1'' ex_ctx_small
               default_config ex_state0))
   \<and> verification_cache
        (snd (verify_policy_compliance (ex_world 100) ''agent-1'' ''refund.v1'' ex_ctx_small
               default_config ex_state0))
     = Map.empty(''policy:refund.v1:agent-1'' \<mapsto> \<lparr> ce_result = JDict ex_allow, ce_expires = 160 \<rparr>)
   \<and> cache_key ''refund.v1'' ''agent-1'' \<noteq> cache_key ''refund.v1'' ''agent-2''"
proof -
  have l: "\<not> live_entry (ex_world 100) ex_state0 (''policy:'' @ ''refund.v1'' @ '':'' @ ''agent-1'')"
    by (rule ex_not_live0)
  have c: "CHR '':'' \<notin> set ''refund.v1''" by simp
  note t = verification_cache_by_policy_and_agent
          [where s = ex_state0 and p = "''refund.v1''" and a = "''agent-1''"
             and w = "ex_world 100" and c = ex_ctx_small and cfg = default_config
             and kvs = ex_allow and ?w2.0 = "ex_world 110" and ?c2.0 = ex_ctx_large
             and p' = "''refund.v1''" and a' = "''agent-2''"]
  from t l ex_server_small ex_allow_truthy ex_ttl_fits
  have 1: "verify_policy_compliance (ex_world 110) ''agent-1'' ''refund.v1'' ex_ctx_large default_config
       (snd (verify_policy_compliance (ex_world 100) ''agent-1'' ''refund.v1'' ex_ctx_small
               default_config ex_state0))
     = (JDict ex_allow,
        snd (verify_policy_compliance (ex_world 100) ''agent-1'' ''refund.v1'' ex_ctx_small
               default_config ex_state0))"
    by simp
  from t l ex_server_small ex_allow_truthy ex_ttl_fits
  have "verification_cache
        (snd (verify_policy_compliance (ex_world 100) ''agent-1'' ''refund.v1'' ex_ctx_small
               default_config ex_state0))
     = (verification_cache ex_state0)(''policy:'' @ ''refund.v1'' @ '':'' @ ''agent-1'' \<mapsto>
          \<lparr> ce_result = JDict ex_allow, ce_expires = expiry_of (ex_world 100) default_config \<rparr>)"
    by blast
  then have 2: "verification_cache
        (snd (verify_policy_compliance (ex_world 100) ''agent-1'' ''refund.v1'' ex_ctx_small
               default_config ex_state0))
     = Map.empty(''policy:refund.v1:agent-1'' \<mapsto> \<lparr> ce_result = JDict ex_allow, ce_expires = 160 \<rparr>)"
    by (simp add: ex_state0_def)
  from t c have 3: "cache_key ''refund.v1'' ''agent-1'' \<noteq> cache_key ''refund.v1'' ''agent-2''"
    by blast
  from 1 2 3 show ?thesis by blast
qed

text \<open>
  C1 as stated fails: the directory allows the refund of 500 and denies the refund of
  150000, the two calls share agent and policy and differ in context, the second call comes
  10 seconds after the first, and it is served the first call's cached allow-decision.
\<close>

theorem context_not_in_cache_key_counterexample:
  "ex_ctx_small \<noteq> ex_ctx_large
   \<and> server_result (ex_world 110) ''agent-1'' ''refund.v1'' ex_ctx_large default_config = Some ex_deny
   \<and> \<not> truthy (dget ex_deny ''allow'' JNull)
   \<and> verify_policy_compliance (ex_world 110) ''agent-1'' ''refund.v1'' ex_ctx_large
        default_config ex_state1 = (JDict ex_allow, ex_state1)
   \<and> truthy (dget ex_allow ''allow'' JNull)"
proof -
  have a: "ex_ctx_small \<noteq> ex_ctx_large"
    by (simp add: ex_ctx_small_def ex_ctx_large_def)
  have c: "now_check (ex_world 110) < ce_expires \<lparr> ce_result = JDict ex_allow, ce_expires = 160 \<rparr>"
    by simp
  show ?thesis
    using a ex_server_large [of 110] verify_hit [OF ex_state1_entry c] ex_deny_falsy ex_allow_truthy
    by simp
qed

text \<open>
  C2, as the code has it. A call writes a cache entry exactly when it finds no live
  entry, the directory's result has a true \<open>allow\<close>, and the expiry (the time of storage
  plus \<open>cache_ttl\<close>) can be computed, which it can unless \<open>cache_ttl\<close> is beyond the range
  of a float; otherwise the cache is left as it is. With such a \<open>cache_ttl\<close> the addition
  raises inside the \<open>try\<close> block and the call returns no result. A denied result is
  returned and not stored, and the next identical request (at a later or equal clock
  reading) posts to the directory again. An allowed result that was stored is returned
  from the cache while the clock is before the stored expiry, and from then on the next
  request posts to the directory again.
\<close>

theorem allow_decisions_only_cached:
  "(list_ex is_cache_write (new_events s (snd (verify_policy_compliance w a p c cfg s)))
      \<longleftrightarrow> \<not> live_entry w s (cache_key p a)
          \<and> (\<exists>kvs. server_result w a p c cfg = Some kvs \<and> truthy (dget kvs ''allow'' JNull))
          \<and> int_fits_float (cache_ttl cfg))
   \<and> (\<not> (\<not> live_entry w s (cache_key p a)
          \<and> (\<exists>kvs. server_result w a p c cfg = Some kvs \<and> truthy (dget kvs ''allow'' JNull))
          \<and> int_fits_float (cache_ttl cfg))
      \<longrightarrow> verification_cache (snd (verify_policy_compliance w a p c cfg s)) = verification_cache s)
   \<and> (\<not> live_entry w s (cache_key p a)
        \<and> server_result w a p c cfg = Some kvs \<and> truthy (dget kvs ''allow'' JNull)
        \<and> \<not> int_fits_float (cache_ttl cfg)
      \<longrightarrow> fst (verify_policy_compliance w a p c cfg s) = JNull)
   \<and> (\<not> live_entry w s (cache_key p a)
        \<and> server_result w a p c cfg = Some kvs \<and> \<not> truthy (dget kvs ''allow'' JNull)
        \<and> now_check w \<le> now_check w2
      \<longrightarrow> fst (verify_policy_compliance w a p c cfg s) = JDict kvs
          \<and> HttpPost (verify_url cfg p) (verify_body a c)
               \<in> set (new_events s (snd (verify_policy_compliance w a p c cfg s)))
          \<and> HttpPost (verify_url cfg p) (verify_body a c)
               \<in> set (new_events (snd (verify_policy_compliance w a p c cfg s))
                       (snd (verify_policy_compliance w2 a p c cfg
                               (snd (verify_policy_compliance w a p c cfg s))))))
   \<and> (\<not> live_entry w s (cache_key p a)
        \<and> server_result w a p c cfg = Some kvs \<and> truthy (dget kvs ''allow'' JNull)
        \<and> int_fits_float (cache_ttl cfg)
      \<longrightarrow> fst (verify_policy_compliance w a p c cfg s) = JDict kvs
          \<and> (now_check w2 < expiry_of w cfg
               \<longrightarrow> verify_policy_compliance w2 a p c cfg (snd (verify_policy_compliance w a p c cfg s))
                     = (JDict kvs, snd (verify_policy_compliance w a p c cfg s)))
          \<and> (expiry_of w cfg \<le> now_check w2
               \<longrightarrow> HttpPost (verify_url cfg p) (verify_body a c)
                     \<in> set (new_events (snd (verify_policy_compliance w a p c cfg s))
                             (snd (verify_policy_compliance w2 a p c cfg
                                     (snd (verify_policy_compliance w a p c cfg s)))))))"
proof -
  have 1: "list_ex is_cache_write (new_events s (snd (verify_policy_compliance w a p c cfg s)))
      \<longleftrightarrow> \<not> live_entry w s (cache_key p a)
          \<and> (\<exists>kvs. server_result w a p c cfg = Some kvs \<and> truthy (dget kvs ''allow'' JNull))
          \<and> int_fits_float (cache_ttl cfg)"
    by (rule verify_writes_iff)
  have 2: "\<not> (\<not> live_entry w s (cache_key p a)
          \<and> (\<exists>kvs. server_result w a p c cfg = Some kvs \<and> truthy (dget kvs ''allow'' JNull))
          \<and> int_fits_float (cache_ttl cfg))
      \<longrightarrow> verification_cache (snd (verify_policy_compliance w a p c cfg s)) = verification_cache s"
    using verify_cache_unchanged [of w s p a c cfg] by blast
  have 3: "\<not> live_entry w s (cache_key p a)
        \<and> server_result w a p c cfg = Some kvs \<and> truthy (dget kvs ''allow'' JNull)
        \<and> \<not> int_fits_float (cache_ttl cfg)
      \<longrightarrow> fst (verify_policy_compliance w a p c cfg s) = JNull"
    using allowed_overflow [of w s p a c cfg kvs] by simp
  have 4: "\<not> live_entry w s (cache_key p a)
        \<and> server_result w a p c cfg = Some kvs \<and> \<not> truthy (dget kvs ''allow'' JNull)
        \<and> now_check w \<le> now_check w2
      \<longrightarrow> fst (verify_policy_compliance w a p c cfg s) = JDict kvs
          \<and> HttpPost (verify_url cfg p) (verify_body a c)
               \<in> set (new_events s (snd (verify_policy_compliance w a p c cfg s)))
          \<and> HttpPost (verify_url cfg p) (verify_body a c)
               \<in> set (new_events (snd (verify_policy_compliance w a p c cfg s))
                       (snd (verify_policy_compliance w2 a p c cfg
                               (snd (verify_policy_compliance w a p c cfg s)))))"
    by (intro impI conjI; elim conjE; (rule denied_twice(1,3,4); assumption))
  have 5: "\<not> live_entry w s (cache_key p a)
        \<and> server_result w a p c cfg = Some kvs \<and> truthy (dget kvs ''allow'' JNull)
        \<and> int_fits_float (cache_ttl cfg)
      \<longrightarrow> fst (verify_policy_compliance w a p c cfg s) = JDict kvs
          \<and> (now_check w2 < expiry_of w cfg
               \<longrightarrow> verify_policy_compliance w2 a p c cfg (snd (verify_policy_compliance w a p c cfg s))
                     = (JDict kvs, snd (verify_policy_compliance w a p c cfg s)))
          \<and> (expiry_of w cfg \<le> now_check w2
               \<longrightarrow> HttpPost (verify_url cfg p) (verify_body a c)
                     \<in> set (new_events (snd (verify_policy_compliance w a p c cfg s))
                             (snd (verify_policy_compliance w2 a p c cfg
                                     (snd (verify_policy_compliance w a p c cfg s))))))"
    by (intro impI conjI; (elim conjE)?; (rule allowed_stored(1) allowed_cached; assumption))
  from 1 2 3 4 5 show ?thesis by blast
qed

theorem allow_decisions_only_cached_witness:
  "(\<not> list_ex is_cache_write (new_events ex_state0 ex_state_denied)
    \<and> HttpPost (verify_url default_config ''refund.v1'') (verify_body ''agent-1'' ex_ctx_large)
         \<in> set (new_events ex_state0 ex_state_denied)
    \<and> HttpPost (verify_url default_config ''refund.v1'') (verify_body ''agent-1'' ex_ctx_large)
         \<in> set (new_events ex_state_denied
                 (snd (verify_policy_compliance (ex_world 101) ''agent-1'' ''refund.v1'' ex_ctx_large
                         default_config ex_state_denied))))
   \<and> (list_ex is_cache_write (new_events ex_state0 ex_state1)
      \<and> verify_policy_compliance (ex_world 130) ''agent-1'' ''refund.v1'' ex_ctx_small
            default_config ex_state1 = (JDict ex_allow, ex_state1)
      \<and> HttpPost (verify_url default_config ''refund.v1'') (verify_body ''agent-1'' ex_ctx_small)
           \<in> set (new_events ex_state1
                   (snd (verify_policy_compliance (ex_world 160) ''agent-1'' ''refund.v1'' ex_ctx_small
                           default_config ex_state1))))"
proof -
  have d: "\<not> list_ex is_cache_write (new_events ex_state0 ex_state_denied)
    \<and> HttpPost (verify_url default_config ''refund.v1'') (verify_body ''agent-1'' ex_ctx_large)
         \<in> set (new_events ex_state0 ex_state_denied)
    \<and> HttpPost (verify_url default_config ''refund.v1'') (verify_body ''agent-1'' ex_ctx_large)
         \<in> set (new_events ex_state_denied
                 (snd (verify_policy_compliance (ex_world 101) ''agent-1'' ''refund.v1'' ex_ctx_large
                         default_config ex_state_denied)))"
    unfolding ex_state_denied_def
    using allow_decisions_only_cached
            [of ex_state0 "ex_world 100" "''agent-1''" "''refund.v1''" ex_ctx_large default_config
                ex_deny "ex_world 101"]
          ex_not_live0 ex_server_large ex_deny_falsy
    by simp
  have a: "list_ex is_cache_write (new_events ex_state0 ex_state1)
      \<and> verify_policy_compliance (ex_world 130) ''agent-1'' ''refund.v1'' ex_ctx_small
            default_config ex_state1 = (JDict ex_allow, ex_state1)"
    unfolding ex_state1_def
    using allow_decisions_only_cached
            [of ex_state0 "ex_world 100" "''agent-1''" "''refund.v1''" ex_ctx_small default_config
                ex_allow "ex_world 130"]
          ex_not_live0 ex_server_small ex_allow_truthy ex_ttl_fits
    by simp
  have e: "HttpPost (verify_url default_config ''refund.v1'') (verify_body ''agent-1'' ex_ctx_small)
           \<in> set (new_events ex_state1
                   (snd (verify_policy_compliance (ex_world 160) ''agent-1'' ''refund.v1'' ex_ctx_small
                           default_config ex_state1)))"
    unfolding ex_state1_def
    using allow_decisions_only_cached
            [of ex_state0 "ex_world 100" "''agent-1''" "''refund.v1''" ex_ctx_small default_config
                ex_allow "ex_world 160"]
          ex_not_live0 ex_server_small ex_allow_truthy ex_ttl_fits
    by simp
  from d a e show ?thesis by blast
qed

text \<open>
  C2 as stated fails: with a \<open>cache_ttl\<close> of \<open>10 ^ 309\<close> the directory's result has a true
  \<open>allow\<close>, no entry was cached before, and the call writes no entry and returns no
  result.
\<close>

theorem allow_not_cached_beyond_float_range_counterexample:
  "server_result (ex_world 100) ''agent-1'' ''refund.v1'' ex_ctx_small ex_config_huge_ttl = Some ex_allow
   \<and> truthy (dget ex_allow ''allow'' JNull)
   \<and> verify_policy_compliance (ex_world 100) ''agent-1'' ''refund.v1'' ex_ctx_small
        ex_config_huge_ttl ex_state0
     = (JNull,
        \<lparr> verification_cache = Map.empty,
          trace = [HttpPost (verify_url ex_config_huge_ttl ''refund.v1'')
                     (verify_body ''agent-1'' ex_ctx_small),
                   LogError ''Error verifying policy compliance''] \<rparr>)"
  using allowed_overflow [OF ex_not_live0 ex_server_small_huge ex_allow_truthy ex_ttl_huge]
        ex_server_small_huge ex_allow_truthy
  by (simp add: ex_state0_def)

subsection \<open>The middleware after verification\<close>


lemma middleware_verified:
  assumes "enabled cfg"
      and "str_or (st_policy_id (rq_state req)) (rq_headers req ''x-policy-id'') = Some pid"
      and "pid \<noteq> []"
  shows "middleware w agent cfg req s =
           after_verification w agent pid cfg (rq_state req)
             (fst (verify_policy_compliance w agent pid (request_context req) cfg s))
             (snd (verify_policy_compliance w agent pid (request_context req) cfg s))"
  using assms by (simp add: middleware_def split: prod.splits)

lemma middleware_on_denial:
  assumes en: "enabled cfg"
      and pid: "str_or (st_policy_id (rq_state req)) (rq_headers req ''x-policy-id'') = Some pid"
               "pid \<noteq> []"
      and miss: "\<not> live_entry w s (cache_key pid agent)"
      and res: "server_result w agent pid (request_context req) cfg = Some kvs"
      and deny: "kvs \<noteq> []" "\<not> truthy (dget kvs ''allow'' JNull)"
  shows "middleware w agent cfg req s =
          (if fail_closed cfg then
             (Inl (policy_violation kvs agent pid), rq_state req,
              s\<lparr>trace := trace s @
                   HttpPost (verify_url cfg pid) (verify_body agent (request_context req)) #
                   (if log_violations cfg then [LogWarning ''Policy violation for agent''] else [])\<rparr>)
           else
             (call_next w, rq_state req,
              s\<lparr>trace := trace s @
                   HttpPost (verify_url cfg pid) (verify_body agent (request_context req)) #
                   (if log_violations cfg then [LogWarning ''Policy violation for agent''] else []) @
                   [LogWarning ''Policy violation detected, allowing request to proceed'',
                    CallNext]\<rparr>))"
  unfolding middleware_verified [OF en pid] verify_miss [OF miss] fetch_denied [OF res deny(2)]
  using deny by (simp add: after_verification_def emit_def)


lemma ex_request_policy_id:
  "str_or (st_policy_id (rq_state (ex_request b))) (rq_headers (ex_request b) ''x-policy-id'')
     = Some ''refund.v1''"
  by (simp add: ex_request_def empty_state_def str_or_def str_truthy_def)

lemma ex_request_context [simp]: "request_context (ex_request b) = b"
  by (simp add: request_context_def ex_request_def empty_state_def)

lemma ex_server_large_open:
  "server_result (ex_world t) ''agent-1'' ''refund.v1'' ex_ctx_large ex_config_open = Some ex_deny"
  by (simp add: server_result_def ex_world_def verify_body_def ex_ctx_small_def ex_ctx_large_def)

lemma ex_deny_nonempty: "ex_deny \<noteq> []"
  by (simp add: ex_deny_def)

lemma ex_flags [simp]:
  "enabled default_config" "fail_closed default_config" "log_violations default_config"
  "enabled ex_config_open" "\<not> fail_closed ex_config_open" "log_violations ex_config_open"
  by (simp_all add: default_config_def ex_config_open_def)

lemma present_allow:
  assumes "map_of kvs ''allow'' = Some v"
  shows "kvs \<noteq> []" "dget kvs ''allow'' JNull = v"
  using assms by (auto simp: dget_def)

text \<open>
  C3, as the code has it by design, for the middleware of policy_enforcement_v2. When the
  verification completes and its result has a false \<open>allow\<close>: with \<open>fail_closed\<close> the
  middleware raises HTTP 403 whose detail holds the error code \<open>policy_violation\<close>, the
  message, the violations, the agent id and the policy id, and the handler is not called;
  without \<open>fail_closed\<close> a warning is logged and the request is passed to the handler.
  In both cases \<open>request.state\<close> is left as it was, and with \<open>log_violations\<close> the
  violation is logged.
\<close>

theorem policy_denial_403_when_fail_closed:
  assumes "enabled cfg"
      and "str_or (st_policy_id (rq_state req)) (rq_headers req ''x-policy-id'') = Some pid"
      and "pid \<noteq> []"
      and "\<not> live_entry w s (cache_key pid agent)"
      and "server_result w agent pid (request_context req) cfg = Some kvs"
      and "map_of kvs ''allow'' = Some v"
      and "\<not> truthy v"
  shows "(fail_closed cfg \<longrightarrow>
            fst (middleware w agent cfg req s) =
              Inl (HTTPException 403
                    (JDict [(''error'', JStr ''policy_violation''),
                            (''message'', dget kvs ''reason'' (JStr ''Policy violation'')),
                            (''violations'', dget kvs ''violations'' (JList [])),
                            (''agent_id'', JStr agent),
                            (''policy_id'', JStr pid)]))
            \<and> CallNext \<notin> set (new_events s (snd (snd (middleware w agent cfg req s)))))
       \<and> (\<not> fail_closed cfg \<longrightarrow>
            fst (middleware w agent cfg req s) = call_next w
            \<and> LogWarning ''Policy violation detected, allowing request to proceed''
                 \<in> set (new_events s (snd (snd (middleware w agent cfg req s))))
            \<and> CallNext \<in> set (new_events s (snd (snd (middleware w agent cfg req s)))))
       \<and> fst (snd (middleware w agent cfg req s)) = rq_state req
       \<and> (log_violations cfg \<longrightarrow>
            LogWarning ''Policy violation for agent''
              \<in> set (new_events s (snd (snd (middleware w agent cfg req s)))))"
proof -
  from assms(6,7) have d: "kvs \<noteq> []" "\<not> truthy (dget kvs ''allow'' JNull)"
    by (simp_all add: present_allow)
  show ?thesis
    unfolding middleware_on_denial [OF assms(1-5) d]
    by (simp add: policy_violation_def)
qed

theorem policy_denial_403_when_fail_closed_witness:
  "fst (middleware (ex_world 100) ''agent-1'' default_config (ex_request ex_ctx_large) ex_state0) =
     Inl (HTTPException 403
           (JDict [(''error'', JStr ''policy_violation''),
                   (''message'', JStr ''limit exceeded''),
                   (''violations'', JList []),
                   (''agent_id'', JStr ''agent-1''),
                   (''policy_id'', JStr ''refund.v1'')]))"
proof -
  have a: "map_of ex_deny ''allow'' = Some (JBool False)"
    by (simp add: ex_deny_def)
  have t: "\<not> truthy (JBool False)" by simp
  from policy_denial_403_when_fail_closed
          [OF _ ex_request_policy_id [of ex_ctx_large] _
              ex_not_live0 [of "ex_world 100" "cache_key ''refund.v1'' ''agent-1''"] _ a t,
           where cfg = default_config]
       ex_server_large
  show ?thesis
    by (simp add: ex_deny_def dget_def)
qed

text \<open>
  C3 as stated fails: with \<open>fail_closed = False\<close> the directory denies the refund of
  150000 and the middleware returns the handler's response.
\<close>

theorem policy_denial_bypassed_counterexample:
  "server_result (ex_world 100) ''agent-1'' ''refund.v1'' ex_ctx_large ex_config_open = Some ex_deny
   \<and> \<not> truthy (dget ex_deny ''allow'' JNull)
   \<and> fst (middleware (ex_world 100) ''agent-1'' ex_config_open (ex_request ex_ctx_large) ex_state0)
        = Inr (HandlerResponse 200 ''ok'')
   \<and> CallNext \<in> set (trace (snd (snd
        (middleware (ex_world 100) ''agent-1'' ex_config_open (ex_request ex_ctx_large) ex_state0))))"
proof -
  have m: "middleware (ex_world 100) ''agent-1'' ex_config_open (ex_request ex_ctx_large) ex_state0
        = (call_next (ex_world 100), rq_state (ex_request ex_ctx_large),
              ex_state0\<lparr>trace := trace ex_state0 @
                   HttpPost (verify_url ex_config_open ''refund.v1'')
                     (verify_body ''agent-1'' (request_context (ex_request ex_ctx_large))) #
                   (if log_violations ex_config_open then [LogWarning ''Policy violation for agent''] else []) @
                   [LogWarning ''Policy violation detected, allowing request to proceed'',
                    CallNext]\<rparr>)"
    using middleware_on_denial
            [of ex_config_open "ex_request ex_ctx_large" "''refund.v1''" "ex_world 100" ex_state0
                "''agent-1''" ex_deny]
          ex_request_policy_id ex_not_live0 ex_server_large_open ex_deny_nonempty ex_deny_falsy
    by simp
  show ?thesis
    unfolding m using ex_server_large_open ex_deny_falsy
    by (simp add: ex_world_def ex_handler_def)
qed

subsection \<open>Failure of the verification service\<close>









section \<open>Properties of the SDK-based middlewares\<close>

subsection \<open>Order of the enforcement checks\<close>

lemma and_then_simps [simp]:
  "and_then (Inl e) b = Inl e"
  "and_then (Inr (Some r)) b = Inr (Some r)"
  "and_then (Inr None) b = b"
  by (simp_all add: and_then_def)

lemma and_then_pass [simp]: "and_then a (Inr None) = a"
  by (auto simp: and_then_def split: sum.splits option.splits)




lemma stage_raises: "deny_unless_allowed (Inl e) d = Inl e"
  by (simp add: deny_unless_allowed_def)



lemma stage_key_error:
  "map_of v ''allowed'' = None
     \<Longrightarrow> deny_unless_allowed (Inr v) d = Inl (PyException ''KeyError'' (squote ''allowed''))"
  by (simp add: deny_unless_allowed_def allowed_item_def)




















subsection \<open>Capability identifiers\<close>



lemma extract_capability_id_str [simp]: "extract_capability_id str (JStr s) = JStr s"
  by (simp add: extract_capability_id_def)





text \<open>
  The \<open>id\<close> field of a record is passed on as it is found, also when it is no string.
\<close>

lemma extract_capability_ids_passes_id:
  "extract_capability_ids str [JDict [(''id'', v)]] = [v]"
  by (simp add: extract_capability_ids_def extract_capability_id_def dget_def)

subsection \<open>Missing agent identifier\<close>

lemma no_agent_header_None: "no_agent_header req \<Longrightarrow> header_agent_id req = None"
  by (auto simp: no_agent_header_def header_agent_id_def str_or_def str_truthy_def
           split: option.splits)

lemma dispatch_simple_missing:
  assumes "\<not> should_skip_request opts req" "no_agent_header req" "opt_fail_closed opts"
  shows "dispatch_simple sdk cn opts req = (missing_agent_id_400, rq_state req, [])"
  using assms
  by (simp add: dispatch_simple_def run_simple_def no_agent_header_None handle_errors_def)

lemma dispatch_v2_missing:
  assumes "\<not> should_skip_request opts req" "no_agent_header req" "opt_fail_closed opts"
  shows "dispatch_v2 sdk cn opts req = (missing_agent_id_400, rq_state req, [])"
  using assms
  by (simp add: dispatch_v2_def run_v2_def no_agent_header_None handle_errors_def)

lemma dispatch_v3_missing:
  assumes "\<not> should_skip_verification opts req"
      and "sdk_extract_agent_id_from_request sdk req = Inr aid" "\<not> str_truthy aid"
      and "opt_fail_closed opts"
  shows "dispatch_v3 sdk cn opts req = (missing_agent_id_401, rq_state req, [])"
  using assms by (simp add: dispatch_v3_def run_v3_def)

text \<open>
  C7, as the code has it. A request that is not skipped and carries no agent identifier,
  with \<open>fail_closed\<close> enabled, is answered at once with error code
  \<open>missing_agent_id\<close>, no call of an SDK function that could contact the directory and
  no call of the handler (the event list is empty): with status 400 in middleware_simple
  and middleware_v2, with status 401 in middleware_v3.
\<close>

theorem missing_agent_id_fails_fast:
  "(\<not> should_skip_request opts req \<and> no_agent_header req \<and> opt_fail_closed opts
      \<longrightarrow> dispatch_simple sdk cn opts req = (missing_agent_id_400, rq_state req, [])
        \<and> dispatch_v2 sdk cn opts req = (missing_agent_id_400, rq_state req, [])
        \<and> status_of missing_agent_id_400 = 400
        \<and> error_code_of missing_agent_id_400 = JStr ''missing_agent_id'')
   \<and> (\<not> should_skip_verification opts req
        \<and> sdk_extract_agent_id_from_request sdk req = Inr aid \<and> \<not> str_truthy aid
        \<and> opt_fail_closed opts
      \<longrightarrow> dispatch_v3 sdk cn opts req = (missing_agent_id_401, rq_state req, [])
        \<and> status_of missing_agent_id_401 = 401
        \<and> error_code_of missing_agent_id_401 = JStr ''missing_agent_id'')"
  by (simp add: dispatch_simple_missing dispatch_v2_missing dispatch_v3_missing
        missing_agent_id_400_def missing_agent_id_401_def dget_def)

lemma ex_anonymous:
  "no_agent_header ex_request_anonymous"
  "\<not> should_skip_request ex_options ex_request_anonymous"
  "\<not> should_skip_verification ex_options ex_request_anonymous"
  "sdk_extract_agent_id_from_request ex_sdk ex_request_anonymous = Inr None"
  "opt_fail_closed ex_options"
  by (simp_all add: no_agent_header_def ex_request_anonymous_def ex_request_with_def
        should_skip_request_def should_skip_verification_def ex_options_def ex_sdk_def)

theorem missing_agent_id_fails_fast_witness:
  "dispatch_simple ex_sdk ex_handler ex_options ex_request_anonymous
     = (missing_agent_id_400, empty_state, [])
   \<and> dispatch_v2 ex_sdk ex_handler ex_options ex_request_anonymous
     = (missing_agent_id_400, empty_state, [])
   \<and> dispatch_v3 ex_sdk ex_handler ex_options ex_request_anonymous
     = (missing_agent_id_401, empty_state, [])"
  using missing_agent_id_fails_fast
          [of ex_options ex_request_anonymous ex_sdk ex_handler None]
        ex_anonymous
  by (simp add: str_truthy_def ex_request_anonymous_def ex_request_with_def)

text \<open>
  C7 as stated fails on middleware_v3: the status is 401, not 400.
\<close>

theorem missing_agent_id_v3_is_401_counterexample:
  "\<not> should_skip_verification ex_options ex_request_anonymous
   \<and> opt_fail_closed ex_options
   \<and> sdk_extract_agent_id_from_request ex_sdk ex_request_anonymous = Inr None
   \<and> status_of (fst (dispatch_v3 ex_sdk ex_handler ex_options ex_request_anonymous)) = 401
   \<and> status_of (fst (dispatch_v3 ex_sdk ex_handler ex_options ex_request_anonymous)) \<noteq> 400"
proof -
  have "dispatch_v3 ex_sdk ex_handler ex_options ex_request_anonymous
          = (missing_agent_id_401, rq_state ex_request_anonymous, [])"
    by (rule dispatch_v3_missing [OF ex_anonymous(3,4) _ ex_anonymous(5)])
       (simp add: str_truthy_def)
  then show ?thesis
    using ex_anonymous by (simp add: missing_agent_id_401_def)
qed

subsection \<open>Unexpected exceptions\<close>




lemma dispatch_v3_unexpected:
  assumes "fst (run_v3 sdk cn opts req) = Inl e"
  shows "fst (dispatch_v3 sdk cn opts req) = middleware_error_500"
proof -
  obtain st tr where "run_v3 sdk cn opts req = (Inl e, st, tr)"
    using assms by (cases "run_v3 sdk cn opts req") auto
  then show ?thesis by (simp add: dispatch_v3_def)
qed









text \<open>
  In middleware_v3's \<open>dispatch\<close> the \<open>HTTPException\<close> 403 that \<open>_run_enforcement_checks\<close>
  raises for a policy violation is caught by the \<open>except Exception\<close> clause of \<open>dispatch\<close>
  itself: the caller receives the generic 500 document.
\<close>

lemma dispatch_v3_policy_violation_is_500:
  "fst (run_enforcement_checks ex_sdk_denying ex_request_agent ''agent-1'' ''refund.v1'')
     = Inl (HTTPException 403
             (JDict [(''error'', JStr ''policy_violation''),
                     (''message'', JStr ''limit exceeded''),
                     (''agent_id'', JStr ''agent-1''),
                     (''policy_id'', JStr ''refund.v1''),
                     (''violations'', JList [])]))
   \<and> fst (dispatch_v3 ex_sdk_denying ex_handler ex_options_policy ex_request_agent)
     = JSONResponse 500 (JDict [(''error'', JStr ''middleware_error''),
                                (''message'', JStr ''Internal server error'')])"
proof -
  have c: "enforcement_core ex_sdk_denying ''agent-1'' ''refund.v1'' (request_body ex_request_agent)
        = (Inl (policy_violation_v3
                  [(''allowed'', JBool False), (''reason'', JStr ''limit exceeded'')]
                  ''agent-1'' ''refund.v1''),
           [SdkCall ''has_policy_access'', SdkCall ''get_policy'', SdkCall ''verify_policy''])"
    by (simp add: enforcement_core_def ex_sdk_denying_def ex_sdk_def dget_def)
  have r: "run_enforcement_checks ex_sdk_denying ex_request_agent ''agent-1'' ''refund.v1''
        = (Inl (policy_violation_v3
                  [(''allowed'', JBool False), (''reason'', JStr ''limit exceeded'')]
                  ''agent-1'' ''refund.v1''),
           [SdkCall ''has_policy_access'', SdkCall ''get_policy'', SdkCall ''verify_policy''])"
    by (simp add: run_enforcement_checks_def c policy_violation_v3_def)
  have s: "\<not> should_skip_verification ex_options_policy ex_request_agent"
    by (simp add: should_skip_verification_def ex_options_policy_def ex_options_def
          ex_request_agent_def ex_request_with_def)
  have x: "sdk_extract_agent_id_from_request ex_sdk_denying ex_request_agent = Inr (Some ''agent-1'')"
    by (simp add: ex_sdk_denying_def ex_sdk_def ex_request_agent_def ex_request_with_def)
  have v: "sdk_verify_agent_passport ex_sdk_denying ''agent-1'' = Inr ex_agent"
    by (simp add: ex_sdk_denying_def ex_sdk_def)
  have p: "opt_policy_id ex_options_policy = Some ''refund.v1''"
    by (simp add: ex_options_policy_def)
  have "fst (run_v3 ex_sdk_denying ex_handler ex_options_policy ex_request_agent)
          = Inl (policy_violation_v3
                  [(''allowed'', JBool False), (''reason'', JStr ''limit exceeded'')]
                  ''agent-1'' ''refund.v1'')"
    by (simp add: run_v3_def s x v p r str_truthy_def)
  from dispatch_v3_unexpected [OF this] show ?thesis
    by (simp add: r policy_violation_v3_def dget_def middleware_error_500_def)
qed

subsection \<open>Skipped requests\<close>

lemma should_skip_request_iff:
  "should_skip_request opts req \<longleftrightarrow>
     rq_method req \<in> set (opt_skip_methods opts)
     \<or> (\<exists>p \<in> set (opt_skip_paths opts). prefix p (rq_path req))"
  by (auto simp: should_skip_request_def list_ex_iff)

lemma should_skip_verification_iff:
  "should_skip_verification opts req \<longleftrightarrow>
     rq_method req \<in> set (opt_skip_methods opts) \<or> rq_path req \<in> set (opt_skip_paths opts)"
  by (auto simp: should_skip_verification_def)

text \<open>
  C10. A request whose method is in \<open>skip_methods\<close>, or whose path has an entry of
  \<open>skip_paths\<close> as a prefix (middleware_simple, middleware_v2) or is an entry of
  \<open>skip_paths\<close> (middleware_v3), is passed to the handler: \<open>dispatch\<close> returns the
  handler's response, \<open>request.state\<close> is left as it was, and the only event is the call
  of the handler (no SDK call, so no verification and no network call).
\<close>

theorem skipped_request_passes_untouched:
  "((rq_method req \<in> set (opt_skip_methods opts)
       \<or> (\<exists>p \<in> set (opt_skip_paths opts). prefix p (rq_path req)))
      \<and> cn = Inr r
     \<longrightarrow> dispatch_simple sdk cn opts req = (r, rq_state req, [CallNext])
       \<and> dispatch_v2 sdk cn opts req = (r, rq_state req, [CallNext]))
   \<and> ((rq_method req \<in> set (opt_skip_methods opts) \<or> rq_path req \<in> set (opt_skip_paths opts))
      \<and> cn = Inr r
     \<longrightarrow> dispatch_v3 sdk cn opts req = (r, rq_state req, [CallNext]))"
proof (intro conjI impI; (elim conjE)?)
  assume "rq_method req \<in> set (opt_skip_methods opts)
       \<or> (\<exists>p \<in> set (opt_skip_paths opts). prefix p (rq_path req))" and cn: "cn = Inr r"
  then have s: "should_skip_request opts req" by (simp add: should_skip_request_iff)
  show "dispatch_simple sdk cn opts req = (r, rq_state req, [CallNext])"
    by (simp add: dispatch_simple_def run_simple_def s cn handle_errors_def)
  show "dispatch_v2 sdk cn opts req = (r, rq_state req, [CallNext])"
    by (simp add: dispatch_v2_def run_v2_def s cn handle_errors_def)
next
  assume "rq_method req \<in> set (opt_skip_methods opts) \<or> rq_path req \<in> set (opt_skip_paths opts)"
    and cn: "cn = Inr r"
  then have s: "should_skip_verification opts req" by (simp add: should_skip_verification_iff)
  show "dispatch_v3 sdk cn opts req = (r, rq_state req, [CallNext])"
    by (simp add: dispatch_v3_def run_v3_def s cn)
qed

theorem skipped_request_passes_untouched_witness:
  "dispatch_simple ex_sdk ex_handler ex_options (ex_request_with ''GET'' ''/health/live'' Map.empty)
     = (HandlerResponse 200 ''ok'', empty_state, [CallNext])
   \<and> dispatch_v2 ex_sdk ex_handler ex_options (ex_request_with ''OPTIONS'' ''/api/refund'' Map.empty)
     = (HandlerResponse 200 ''ok'', empty_state, [CallNext])
   \<and> dispatch_v3 ex_sdk ex_handler ex_options (ex_request_with ''GET'' ''/health'' Map.empty)
     = (HandlerResponse 200 ''ok'', empty_state, [CallNext])"
proof -
  have a: "dispatch_simple ex_sdk ex_handler ex_options (ex_request_with ''GET'' ''/health/live'' Map.empty)
     = (HandlerResponse 200 ''ok'', empty_state, [CallNext])"
    using skipped_request_passes_untouched
            [of "ex_request_with ''GET'' ''/health/live'' Map.empty" ex_options ex_handler
                "HandlerResponse 200 ''ok''" ex_sdk]
    by (simp add: ex_request_with_def ex_options_def ex_handler_def)
  have b: "dispatch_v2 ex_sdk ex_handler ex_options (ex_request_with ''OPTIONS'' ''/api/refund'' Map.empty)
     = (HandlerResponse 200 ''ok'', empty_state, [CallNext])"
    using skipped_request_passes_untouched
            [of "ex_request_with ''OPTIONS'' ''/api/refund'' Map.empty" ex_options ex_handler
                "HandlerResponse 200 ''ok''" ex_sdk]
    by (simp add: ex_request_with_def ex_options_def ex_handler_def)
  have c: "dispatch_v3 ex_sdk ex_handler ex_options (ex_request_with ''GET'' ''/health'' Map.empty)
     = (HandlerResponse 200 ''ok'', empty_state, [CallNext])"
    using skipped_request_passes_untouched
            [of "ex_request_with ''GET'' ''/health'' Map.empty" ex_options ex_handler
                "HandlerResponse 200 ''ok''" ex_sdk]
    by (simp add: ex_request_with_def ex_options_def ex_handler_def)
  from a b c show ?thesis by simp
qed

end
